theory Spec2Isabelle
  imports Main
begin

section \<open>The github\_team resource: create, read, update, delete with bounded retries\<close>

text \<open>
  A shallow embedding of \<^verbatim>\<open>github/resource_github_team.go\<close>. The four operations take the
  provider's \<^verbatim>\<open>meta\<close> (the owner and its API clients), the resource data \<^verbatim>\<open>d\<close> and the
  log of everything done so far to the outside world (remote calls and sleeps), and
  return the Go \<^verbatim>\<open>error\<close> (\<open>None\<close> for \<^verbatim>\<open>nil\<close>), the resource data as the operation leaves
  it, and the extended log.
\<close>

subsection \<open>Constants\<close>

definition github_team_api_retry :: nat where
  "github_team_api_retry = 10"

definition github_team_api_wait :: nat where
  "github_team_api_wait = 5"

text \<open>\<^verbatim>\<open>http.StatusNotModified\<close> and \<^verbatim>\<open>http.StatusNotFound\<close>.\<close>

definition StatusNotModified :: int where
  "StatusNotModified = 304"

definition StatusNotFound :: int where
  "StatusNotFound = 404"

subsection \<open>Errors\<close>

text \<open>The two errors of \<^verbatim>\<open>strconv\<close>: \<^verbatim>\<open>ErrSyntax\<close> and \<^verbatim>\<open>ErrRange\<close>.\<close>

datatype num_error = ErrSyntax | ErrRange

text \<open>
  A Go \<^verbatim>\<open>error\<close> value. The code tells errors apart by the type assertion
  \<^verbatim>\<open>err.(*github.ErrorResponse)\<close> and then by \<^verbatim>\<open>Response.StatusCode\<close>, so an error is either
  an \<open>ErrorResponse\<close> with its status code or an error of any other type. The result of
  \<^verbatim>\<open>unconvertibleIdErr(d.Id(), err)\<close>, a helper declared outside this file, is kept as a
  value of its own carrying both arguments. Dereferencing a nil \<^verbatim>\<open>Slug\<close> panics.
\<close>

datatype error =
    ErrorResponse int
  | OtherError string
  | UnconvertibleIdErr string num_error
  | NilDereference

subsection \<open>\<^verbatim>\<open>strconv.ParseInt(s, 10, 64)\<close> and \<^verbatim>\<open>strconv.FormatInt(n, 10)\<close>\<close>

definition isDigit :: "char \<Rightarrow> bool" where
  "isDigit c = (48 \<le> (of_char c :: nat) \<and> (of_char c :: nat) \<le> 57)"

definition digitVal :: "char \<Rightarrow> nat" where
  "digitVal c = of_char c - 48"

definition maxUint64 :: nat where
  "maxUint64 = 2 ^ 64 - 1"

text \<open>
  The digit loop of \<^verbatim>\<open>ParseUint\<close> in base 10: a byte that is not a digit is a syntax
  error; a value that leaves 64 bits is a range error, reported where it happens.
\<close>

fun parseUintFrom :: "nat \<Rightarrow> string \<Rightarrow> num_error + nat" where
  "parseUintFrom n [] = Inr n"
| "parseUintFrom n (c # cs) =
     (if \<not> isDigit c then Inl ErrSyntax
      else if n \<ge> maxUint64 div 10 + 1 then Inl ErrRange
      else if n * 10 + digitVal c > maxUint64 then Inl ErrRange
      else parseUintFrom (n * 10 + digitVal c) cs)"

definition ParseUint :: "string \<Rightarrow> num_error + nat" where
  "ParseUint s = (if s = [] then Inl ErrSyntax else parseUintFrom 0 s)"

definition ParseInt :: "string \<Rightarrow> num_error + int" where
  "ParseInt s =
     (case s of
        [] \<Rightarrow> Inl ErrSyntax
      | c # cs \<Rightarrow>
          (let neg = (c = CHR ''-'');
               body = (if c = CHR ''+'' \<or> c = CHR ''-'' then cs else s)
           in case ParseUint body of
                Inl ErrSyntax \<Rightarrow> Inl ErrSyntax
              | Inl ErrRange \<Rightarrow> Inl ErrRange
              | Inr un \<Rightarrow>
                  if \<not> neg \<and> un \<ge> 2 ^ 63 then Inl ErrRange
                  else if neg \<and> un > 2 ^ 63 then Inl ErrRange
                  else Inr (if neg then - int un else int un)))"

fun decimalDigits :: "nat \<Rightarrow> string" where
  "decimalDigits n =
     (if n < 10 then [''0123456789'' ! n]
      else decimalDigits (n div 10) @ [''0123456789'' ! (n mod 10)])"

declare decimalDigits.simps [simp del]

definition FormatInt :: "int \<Rightarrow> string" where
  "FormatInt n =
     (if n < 0 then CHR ''-'' # decimalDigits (nat (- n)) else decimalDigits (nat n))"

subsection \<open>Data\<close>

text \<open>\<^verbatim>\<open>github.NewTeam\<close>, with the fields the resource fills in.\<close>

record NewTeam =
  nt_Name :: string
  nt_Description :: string
  nt_Privacy :: string
  nt_ParentTeamID :: "int option"

text \<open>
  \<^verbatim>\<open>github.Team\<close>, with the fields the resource reads. The getters (\<^verbatim>\<open>GetName\<close>, \<^verbatim>\<open>GetID\<close>,
  ...) return the zero value for a nil pointer, so those fields are plain values;
  \<^verbatim>\<open>Slug\<close> is also dereferenced directly and \<^verbatim>\<open>Parent\<close> is tested against nil, so both are
  optional. \<open>t_Parent\<close> holds \<^verbatim>\<open>parent.GetID()\<close>.
\<close>

record Team =
  t_ID :: int
  t_Name :: string
  t_Description :: string
  t_Privacy :: string
  t_Parent :: "int option"
  t_LDAPDN :: string
  t_Slug :: "string option"
  t_NodeID :: string
  t_MembersCount :: int

text \<open>
  \<^verbatim>\<open>schema.ResourceData\<close>: the identifier, the fields of the schema, whether the resource
  is marked new (\<^verbatim>\<open>d.IsNewResource()\<close>), and the value \<^verbatim>\<open>ldap_dn\<close> has in the prior state,
  which is what \<^verbatim>\<open>d.HasChange("ldap_dn")\<close> compares the current value with.
\<close>

record ResourceData =
  resource_id :: string
  is_new_resource :: bool
  name :: string
  description :: string
  privacy :: string
  parent_team_id :: string
  ldap_dn :: string
  create_default_maintainer :: bool
  slug :: string
  etag :: string
  node_id :: string
  members_count :: int
  ldap_dn_prior :: string

definition HasChange_ldap_dn :: "ResourceData \<Rightarrow> bool" where
  "HasChange_ldap_dn d = (ldap_dn_prior d \<noteq> ldap_dn d)"

text \<open>The two values the code puts into a request context: \<^verbatim>\<open>ctxId\<close> and \<^verbatim>\<open>ctxEtag\<close>.\<close>

record Context =
  ctxId :: "string option"
  ctxEtag :: "string option"

subsection \<open>The outside world\<close>

text \<open>
  Everything an operation does to the outside world, in order: a sleep of so many
  seconds, or one call of a collaborator with its arguments.
\<close>

datatype call =
    is_Sleep: Sleep nat
  | is_getTeamID: Call_getTeamID string
  | is_CreateTeam: Call_CreateTeam string NewTeam
  | is_Query: Call_Query string string
  | is_RemoveTeamMembershipBySlug: Call_RemoveTeamMembershipBySlug string string string
  | is_UpdateTeamLDAPMapping: Call_UpdateTeamLDAPMapping int string
  | is_GetTeamByID: Call_GetTeamByID Context int int
  | is_EditTeamByID: Call_EditTeamByID Context int int NewTeam
  | is_DeleteTeamByID: Call_DeleteTeamByID Context int int

type_synonym world = "call list"

text \<open>
  \<^verbatim>\<open>meta.(*Owner)\<close>: the owner's name and id, the outcome of \<^verbatim>\<open>checkOrganization(meta)\<close>, and
  what each collaborator answers. \<^verbatim>\<open>checkOrganization\<close>, \<^verbatim>\<open>getTeamID\<close> and the two API
  clients are not part of this file, so their answers are parameters: any function of
  the arguments and of how many calls of the same kind came before (the remote side may
  answer the third lookup differently from the first). \<^verbatim>\<open>GetTeamByID\<close> answers with the
  team and the \<^verbatim>\<open>ETag\<close> header of the response.
\<close>

record Owner =
  owner_name :: string
  owner_id :: int
  checkOrganization :: "error option"
  getTeamID_answer :: "nat \<Rightarrow> string \<Rightarrow> error + int"
  CreateTeam_answer :: "string \<Rightarrow> NewTeam \<Rightarrow> error + Team"
  Query_answer :: "string \<Rightarrow> string \<Rightarrow> error + string list"
  RemoveTeamMembershipBySlug_answer :: "nat \<Rightarrow> string \<Rightarrow> string \<Rightarrow> string \<Rightarrow> error option"
  UpdateTeamLDAPMapping_answer :: "int \<Rightarrow> string \<Rightarrow> error option"
  GetTeamByID_answer :: "nat \<Rightarrow> Context \<Rightarrow> int \<Rightarrow> int \<Rightarrow> error + Team \<times> string"
  EditTeamByID_answer :: "Context \<Rightarrow> int \<Rightarrow> int \<Rightarrow> NewTeam \<Rightarrow> error + Team"
  DeleteTeamByID_answer :: "Context \<Rightarrow> int \<Rightarrow> int \<Rightarrow> error option"

definition calls_of :: "(call \<Rightarrow> bool) \<Rightarrow> world \<Rightarrow> nat" where
  "calls_of P w = length (filter P w)"

definition remote_calls :: "world \<Rightarrow> nat" where
  "remote_calls w = length (filter (\<lambda>c. \<not> is_Sleep c) w)"

definition sleep :: "nat \<Rightarrow> world \<Rightarrow> world" where
  "sleep secs w = w @ [Sleep secs]"

definition getTeamID :: "Owner \<Rightarrow> string \<Rightarrow> world \<Rightarrow> (error + int) \<times> world" where
  "getTeamID meta s w =
     (getTeamID_answer meta (calls_of is_getTeamID w) s, w @ [Call_getTeamID s])"

definition CreateTeam :: "Owner \<Rightarrow> string \<Rightarrow> NewTeam \<Rightarrow> world \<Rightarrow> (error + Team) \<times> world" where
  "CreateTeam meta org nt w = (CreateTeam_answer meta org nt, w @ [Call_CreateTeam org nt])"

definition Query :: "Owner \<Rightarrow> string \<Rightarrow> string \<Rightarrow> world \<Rightarrow> (error + string list) \<times> world" where
  "Query meta teamSlug login w = (Query_answer meta teamSlug login, w @ [Call_Query teamSlug login])"

definition RemoveTeamMembershipBySlug ::
  "Owner \<Rightarrow> string \<Rightarrow> string \<Rightarrow> string \<Rightarrow> world \<Rightarrow> error option \<times> world" where
  "RemoveTeamMembershipBySlug meta org teamSlug user w =
     (RemoveTeamMembershipBySlug_answer meta (calls_of is_RemoveTeamMembershipBySlug w) org teamSlug user,
      w @ [Call_RemoveTeamMembershipBySlug org teamSlug user])"

definition UpdateTeamLDAPMapping :: "Owner \<Rightarrow> int \<Rightarrow> string \<Rightarrow> world \<Rightarrow> error option \<times> world" where
  "UpdateTeamLDAPMapping meta team dn w =
     (UpdateTeamLDAPMapping_answer meta team dn, w @ [Call_UpdateTeamLDAPMapping team dn])"

definition GetTeamByID ::
  "Owner \<Rightarrow> Context \<Rightarrow> int \<Rightarrow> int \<Rightarrow> world \<Rightarrow> (error + Team \<times> string) \<times> world" where
  "GetTeamByID meta ctx orgId i w =
     (GetTeamByID_answer meta (calls_of is_GetTeamByID w) ctx orgId i,
      w @ [Call_GetTeamByID ctx orgId i])"

definition EditTeamByID ::
  "Owner \<Rightarrow> Context \<Rightarrow> int \<Rightarrow> int \<Rightarrow> NewTeam \<Rightarrow> world \<Rightarrow> (error + Team) \<times> world" where
  "EditTeamByID meta ctx orgId i nt w =
     (EditTeamByID_answer meta ctx orgId i nt, w @ [Call_EditTeamByID ctx orgId i nt])"

definition DeleteTeamByID ::
  "Owner \<Rightarrow> Context \<Rightarrow> int \<Rightarrow> int \<Rightarrow> world \<Rightarrow> error option \<times> world" where
  "DeleteTeamByID meta ctx orgId i w =
     (DeleteTeamByID_answer meta ctx orgId i, w @ [Call_DeleteTeamByID ctx orgId i])"

subsection \<open>\<^verbatim>\<open>resourceGithubTeamRead\<close>\<close>

text \<open>
  A loop of the source either returns from the function or falls through to the code
  after it.
\<close>

datatype ('r, 's) flow = Return 'r | Next 's

text \<open>
  The loop of lines 193 to 216, entered with the answer of the first fetch. A not-modified
  answer returns nil; any other \<open>ErrorResponse\<close> sleeps and fetches again (the branch for
  not-found and the one after it do the same); an error of another type is returned at
  once; a team leaves the loop.
\<close>

function readLoop ::
  "Owner \<Rightarrow> Context \<Rightarrow> int \<Rightarrow> nat \<Rightarrow> (error + Team \<times> string) \<Rightarrow> world
     \<Rightarrow> (error option, error + Team \<times> string) flow \<times> world" where
  "readLoop meta ctx i n r w =
     (if n < github_team_api_retry then
        (case r of
           Inl err \<Rightarrow>
             (case err of
                ErrorResponse status \<Rightarrow>
                  if status = StatusNotModified then (Return None, w)
                  else if status = StatusNotFound then
                    (let w1 = sleep github_team_api_wait w;
                         (r', w2) = GetTeamByID meta ctx (owner_id meta) i w1
                     in readLoop meta ctx i (n + 1) r' w2)
                  else
                    (let w1 = sleep github_team_api_wait w;
                         (r', w2) = GetTeamByID meta ctx (owner_id meta) i w1
                     in readLoop meta ctx i (n + 1) r' w2)
              | _ \<Rightarrow> (Return (Some err), w))
         | Inr _ \<Rightarrow> (Next r, w))
      else (Next r, w))"
  by pat_completeness auto
termination
  by (relation "measure (\<lambda>(meta, ctx, i, n, r, w). github_team_api_retry - n)") auto

declare readLoop.simps [simp del]

text \<open>Lines 232 to 244: the fields \<^verbatim>\<open>d.Set\<close> writes from the team and the response.\<close>

definition setTeamFields :: "Team \<Rightarrow> string \<Rightarrow> ResourceData \<Rightarrow> ResourceData" where
  "setTeamFields team etagHeader d =
     d\<lparr>etag := etagHeader,
       description := t_Description team,
       name := t_Name team,
       privacy := t_Privacy team,
       parent_team_id := (case t_Parent team of Some p \<Rightarrow> FormatInt p | None \<Rightarrow> ''''),
       ldap_dn := t_LDAPDN team,
       slug := (case t_Slug team of Some s \<Rightarrow> s | None \<Rightarrow> ''''),
       node_id := t_NodeID team,
       members_count := t_MembersCount team\<rparr>"

definition readContext :: "ResourceData \<Rightarrow> Context" where
  "readContext d =
     \<lparr>ctxId = Some (resource_id d),
      ctxEtag = (if \<not> is_new_resource d then Some (etag d) else None)\<rparr>"

text \<open>Lines 217 to 246: what the function does with the answer the loop leaves.\<close>

definition readAfterLoop ::
  "(error + Team \<times> string) \<Rightarrow> ResourceData \<Rightarrow> world \<Rightarrow> error option \<times> ResourceData \<times> world" where
  "readAfterLoop r d w =
     (case r of
        Inl err \<Rightarrow>
          (case err of
             ErrorResponse status \<Rightarrow>
               if status = StatusNotModified then (None, d, w)
               else if status = StatusNotFound then (None, d\<lparr>resource_id := ''''\<rparr>, w)
               else (Some err, d, w)
           | _ \<Rightarrow> (Some err, d, w))
      | Inr (team, etagHeader) \<Rightarrow> (None, setTeamFields team etagHeader d, w))"

definition resourceGithubTeamRead ::
  "Owner \<Rightarrow> ResourceData \<Rightarrow> world \<Rightarrow> error option \<times> ResourceData \<times> world" where
  "resourceGithubTeamRead meta d w =
     (case checkOrganization meta of
        Some err \<Rightarrow> (Some err, d, w)
      | None \<Rightarrow>
          (case ParseInt (resource_id d) of
             Inl perr \<Rightarrow> (Some (UnconvertibleIdErr (resource_id d) perr), d, w)
           | Inr i \<Rightarrow>
               (let ctx = readContext d;
                    (r, w1) = GetTeamByID meta ctx (owner_id meta) i w;
                    (fl, w2) = readLoop meta ctx i 0 r w1
                in case fl of
                     Return e \<Rightarrow> (e, d, w2)
                   | Next r' \<Rightarrow> readAfterLoop r' d w2)))"

subsection \<open>\<^verbatim>\<open>resourceGithubTeamDelete\<close>\<close>

definition idContext :: "ResourceData \<Rightarrow> Context" where
  "idContext d = \<lparr>ctxId = Some (resource_id d), ctxEtag = None\<rparr>"

text \<open>
  After a failed delete call the variable \<^verbatim>\<open>err\<close> is assigned the error of the re-fetch
  (line 345), and that variable is what lines 357 and 360 return.
\<close>

definition resourceGithubTeamDelete ::
  "Owner \<Rightarrow> ResourceData \<Rightarrow> world \<Rightarrow> error option \<times> ResourceData \<times> world" where
  "resourceGithubTeamDelete meta d w =
     (case checkOrganization meta of
        Some err \<Rightarrow> (Some err, d, w)
      | None \<Rightarrow>
          (case ParseInt (resource_id d) of
             Inl perr \<Rightarrow> (Some (UnconvertibleIdErr (resource_id d) perr), d, w)
           | Inr i \<Rightarrow>
               (let ctx = idContext d;
                    (err, w1) = DeleteTeamByID meta ctx (owner_id meta) i w
                in case err of
                     None \<Rightarrow> (None, d, w1)
                   | Some _ \<Rightarrow>
                       (let (r, w2) = GetTeamByID meta ctx (owner_id meta) i w1
                        in case r of
                             Inl err2 \<Rightarrow>
                               (case err2 of
                                  ErrorResponse status \<Rightarrow>
                                    if status = StatusNotFound then
                                      (None, d\<lparr>resource_id := ''''\<rparr>, w2)
                                    else (Some err2, d, w2)
                                | _ \<Rightarrow> (Some err2, d, w2))
                           | Inr _ \<Rightarrow> (None, d, w2)))))"

subsection \<open>\<^verbatim>\<open>removeDefaultMaintainer\<close>\<close>

text \<open>The loop over \<^verbatim>\<open>query.Organization.Team.Members.Nodes\<close>: it stops at the first error.\<close>

fun removeMembers :: "Owner \<Rightarrow> string \<Rightarrow> string list \<Rightarrow> world \<Rightarrow> error option \<times> world" where
  "removeMembers meta teamSlug [] w = (None, w)"
| "removeMembers meta teamSlug (user # users) w =
     (let (err, w1) = RemoveTeamMembershipBySlug meta (owner_name meta) teamSlug user w
      in case err of
           Some e \<Rightarrow> (Some e, w1)
         | None \<Rightarrow> removeMembers meta teamSlug users w1)"

definition removeDefaultMaintainer :: "Owner \<Rightarrow> string \<Rightarrow> world \<Rightarrow> error option \<times> world" where
  "removeDefaultMaintainer meta teamSlug w =
     (let (q, w1) = Query meta teamSlug (owner_name meta) w
      in case q of
           Inl err \<Rightarrow> (Some err, w1)
         | Inr nodes \<Rightarrow> removeMembers meta teamSlug nodes w1)"

subsection \<open>\<^verbatim>\<open>resourceGithubTeamCreate\<close>\<close>

text \<open>
  The loop of lines 117 to 127, entered with the answer of the first lookup: on an
  error it sleeps, looks the parent up again and continues; on success it breaks.
\<close>

function createParentLoop ::
  "Owner \<Rightarrow> string \<Rightarrow> nat \<Rightarrow> (error + int) \<Rightarrow> world \<Rightarrow> (error + int) \<times> world" where
  "createParentLoop meta s n r w =
     (if n < github_team_api_retry then
        (case r of
           Inl err \<Rightarrow>
             (let w1 = sleep github_team_api_wait w;
                  (r', w2) = getTeamID meta s w1
              in createParentLoop meta s (n + 1) r' w2)
         | Inr teamId \<Rightarrow> (r, w))
      else (r, w))"
  by pat_completeness auto
termination
  by (relation "measure (\<lambda>(meta, s, n, r, w). github_team_api_retry - n)") auto

declare createParentLoop.simps [simp del]

text \<open>Lines 116 to 127: the first lookup and the loop.\<close>

definition createParentTeamId :: "Owner \<Rightarrow> string \<Rightarrow> world \<Rightarrow> (error + int) \<times> world" where
  "createParentTeamId meta s w =
     (let (r, w1) = getTeamID meta s w in createParentLoop meta s 0 r w1)"

text \<open>
  Lines 103 to 107 and 258 to 262: the team to send, without a parent.
  \<^verbatim>\<open>d.GetOk("parent_team_id")\<close> is ok when the string is not empty.
\<close>

definition teamOf :: "ResourceData \<Rightarrow> NewTeam" where
  "teamOf d =
     \<lparr>nt_Name = name d, nt_Description = description d, nt_Privacy = privacy d,
      nt_ParentTeamID = None\<rparr>"

text \<open>Lines 103 to 133: the team to create, with the parent resolved if one is set.\<close>

definition createNewTeam :: "Owner \<Rightarrow> ResourceData \<Rightarrow> world \<Rightarrow> (error + NewTeam) \<times> world" where
  "createNewTeam meta d w =
     (let newTeam = teamOf d
      in if parent_team_id d \<noteq> '''' then
           (let (r, w1) = createParentTeamId meta (parent_team_id d) w
            in case r of
                 Inl err \<Rightarrow> (Inl err, w1)
               | Inr teamId \<Rightarrow> (Inr (newTeam\<lparr>nt_ParentTeamID := Some teamId\<rparr>), w1))
         else (Inr newTeam, w))"

text \<open>Lines 143 to 149.\<close>

definition createRemoveMaintainer ::
  "Owner \<Rightarrow> ResourceData \<Rightarrow> Team \<Rightarrow> world \<Rightarrow> error option \<times> world" where
  "createRemoveMaintainer meta d githubTeam w =
     (if \<not> create_default_maintainer d then
        (case t_Slug githubTeam of
           None \<Rightarrow> (Some NilDereference, w)
         | Some teamSlug \<Rightarrow> removeDefaultMaintainer meta teamSlug w)
      else (None, w))"

text \<open>Lines 151 to 159.\<close>

definition createLdapMapping ::
  "Owner \<Rightarrow> ResourceData \<Rightarrow> Team \<Rightarrow> world \<Rightarrow> error option \<times> world" where
  "createLdapMapping meta d githubTeam w =
     (if ldap_dn d \<noteq> '''' then UpdateTeamLDAPMapping meta (t_ID githubTeam) (ldap_dn d) w
      else (None, w))"

definition resourceGithubTeamCreate ::
  "Owner \<Rightarrow> ResourceData \<Rightarrow> world \<Rightarrow> error option \<times> ResourceData \<times> world" where
  "resourceGithubTeamCreate meta d w =
     (case checkOrganization meta of
        Some err \<Rightarrow> (Some err, d, w)
      | None \<Rightarrow>
          (let (nt, w1) = createNewTeam meta d w
           in case nt of
                Inl err \<Rightarrow> (Some err, d, w1)
              | Inr newTeam \<Rightarrow>
                  (let (r, w2) = CreateTeam meta (owner_name meta) newTeam w1
                   in case r of
                        Inl err \<Rightarrow> (Some err, d, w2)
                      | Inr githubTeam \<Rightarrow>
                          (let (merr, w3) = createRemoveMaintainer meta d githubTeam w2
                           in case merr of
                                Some err \<Rightarrow> (Some err, d, w3)
                              | None \<Rightarrow>
                                  (let (lerr, w4) = createLdapMapping meta d githubTeam w3
                                   in case lerr of
                                        Some err \<Rightarrow> (Some err, d, w4)
                                      | None \<Rightarrow>
                                          resourceGithubTeamRead meta
                                            (d\<lparr>resource_id := FormatInt (t_ID githubTeam)\<rparr>)
                                            w4)))))"

subsection \<open>\<^verbatim>\<open>resourceGithubTeamUpdate\<close>\<close>

text \<open>The loop of lines 274 to 284.\<close>

function updateParentLoop ::
  "Owner \<Rightarrow> string \<Rightarrow> nat \<Rightarrow> (error + int) \<Rightarrow> world \<Rightarrow> (error + int) \<times> world" where
  "updateParentLoop meta s n r w =
     (if n < github_team_api_retry then
        (case r of
           Inl err \<Rightarrow>
             (let w1 = sleep github_team_api_wait w;
                  (r', w2) = getTeamID meta s w1
              in updateParentLoop meta s (n + 1) r' w2)
         | Inr teamId \<Rightarrow> (r, w))
      else (r, w))"
  by pat_completeness auto
termination
  by (relation "measure (\<lambda>(meta, s, n, r, w). github_team_api_retry - n)") auto

declare updateParentLoop.simps [simp del]

text \<open>Lines 273 to 284.\<close>

definition updateParentTeamId :: "Owner \<Rightarrow> string \<Rightarrow> world \<Rightarrow> (error + int) \<times> world" where
  "updateParentTeamId meta s w =
     (let (r, w1) = getTeamID meta s w in updateParentLoop meta s 0 r w1)"

text \<open>Lines 258 to 290: the team to send, with the parent resolved if one is set.\<close>

definition updateEditedTeam :: "Owner \<Rightarrow> ResourceData \<Rightarrow> world \<Rightarrow> (error + NewTeam) \<times> world" where
  "updateEditedTeam meta d w =
     (let editedTeam = teamOf d
      in if parent_team_id d \<noteq> '''' then
           (let (r, w1) = updateParentTeamId meta (parent_team_id d) w
            in case r of
                 Inl err \<Rightarrow> (Inl err, w1)
               | Inr teamId \<Rightarrow> (Inr (editedTeam\<lparr>nt_ParentTeamID := Some teamId\<rparr>), w1))
         else (Inr editedTeam, w))"

text \<open>Lines 304 to 313.\<close>

definition updateLdapMapping ::
  "Owner \<Rightarrow> ResourceData \<Rightarrow> Team \<Rightarrow> world \<Rightarrow> error option \<times> world" where
  "updateLdapMapping meta d team w =
     (if HasChange_ldap_dn d then UpdateTeamLDAPMapping meta (t_ID team) (ldap_dn d) w
      else (None, w))"

text \<open>The identifier is parsed (line 292) after the parent has been resolved.\<close>

definition resourceGithubTeamUpdate ::
  "Owner \<Rightarrow> ResourceData \<Rightarrow> world \<Rightarrow> error option \<times> ResourceData \<times> world" where
  "resourceGithubTeamUpdate meta d w =
     (case checkOrganization meta of
        Some err \<Rightarrow> (Some err, d, w)
      | None \<Rightarrow>
          (let (nt, w1) = updateEditedTeam meta d w
           in case nt of
                Inl err \<Rightarrow> (Some err, d, w1)
              | Inr editedTeam \<Rightarrow>
                  (case ParseInt (resource_id d) of
                     Inl perr \<Rightarrow> (Some (UnconvertibleIdErr (resource_id d) perr), d, w1)
                   | Inr teamId \<Rightarrow>
                       (let ctx = idContext d;
                            (r, w2) = EditTeamByID meta ctx (owner_id meta) teamId editedTeam w1
                        in case r of
                             Inl err \<Rightarrow> (Some err, d, w2)
                           | Inr team \<Rightarrow>
                               (let (lerr, w3) = updateLdapMapping meta d team w2
                                in case lerr of
                                     Some err \<Rightarrow> (Some err, d, w3)
                                   | None \<Rightarrow>
                                       resourceGithubTeamRead meta
                                         (d\<lparr>resource_id := FormatInt (t_ID team)\<rparr>) w3)))))"

subsection \<open>The log of a run of retries\<close>

text \<open>
  What \<open>k\<close> retries of the call \<open>c\<close> add to the log: \<open>k\<close> times a sleep of
  \<open>github_team_api_wait\<close> seconds followed by the call.
\<close>

definition retries :: "nat \<Rightarrow> call \<Rightarrow> world" where
  "retries k c = concat (replicate k [Sleep github_team_api_wait, c])"

text \<open>The answers the loop of the read retries: an \<open>ErrorResponse\<close> other than not-modified.\<close>

definition readRetries :: "error + Team \<times> string \<Rightarrow> bool" where
  "readRetries r =
     (case r of
        Inl err \<Rightarrow> (case err of ErrorResponse status \<Rightarrow> status \<noteq> StatusNotModified | _ \<Rightarrow> False)
      | Inr _ \<Rightarrow> False)"

text \<open>
  The answer to fetch number \<open>j\<close> (from 0) of a read that starts with the log \<open>w\<close>
  and the parsed identifier \<open>i\<close>, and the call that read repeats.
\<close>

definition readAnswer ::
  "Owner \<Rightarrow> ResourceData \<Rightarrow> world \<Rightarrow> int \<Rightarrow> nat \<Rightarrow> error + Team \<times> string" where
  "readAnswer meta d w i j =
     GetTeamByID_answer meta (calls_of is_GetTeamByID w + j) (readContext d) (owner_id meta) i"

definition readCall :: "Owner \<Rightarrow> ResourceData \<Rightarrow> int \<Rightarrow> call" where
  "readCall meta d i = Call_GetTeamByID (readContext d) (owner_id meta) i"

text \<open>The answer to lookup number \<open>j\<close> (from 0) of a parent resolution that starts with the log \<open>w\<close>.\<close>

definition lookupAnswer :: "Owner \<Rightarrow> world \<Rightarrow> string \<Rightarrow> nat \<Rightarrow> error + int" where
  "lookupAnswer meta w s j = getTeamID_answer meta (calls_of is_getTeamID w + j) s"

subsection \<open>Concrete inputs\<close>

text \<open>
  An organization whose collaborators all answer with success, a team as the remote
  side reports it, and a resource as the configuration describes it. The examples
  below change one answer or one field at a time.
\<close>

definition someTeam :: Team where
  "someTeam =
     \<lparr>t_ID = 42, t_Name = ''core'', t_Description = ''the core team'', t_Privacy = ''closed'',
      t_Parent = Some 7, t_LDAPDN = '''', t_Slug = Some ''core'', t_NodeID = ''T_42'',
      t_MembersCount = 3\<rparr>"

definition someOwner :: Owner where
  "someOwner =
     \<lparr>owner_name = ''acme'', owner_id = 1, checkOrganization = None,
      getTeamID_answer = (\<lambda>k s. Inr 7),
      CreateTeam_answer = (\<lambda>org nt. Inr someTeam),
      Query_answer = (\<lambda>teamSlug login. Inr [''creator'']),
      RemoveTeamMembershipBySlug_answer = (\<lambda>k org teamSlug user. None),
      UpdateTeamLDAPMapping_answer = (\<lambda>team dn. None),
      GetTeamByID_answer = (\<lambda>k ctx orgId i. Inr (someTeam, ''W/abc'')),
      EditTeamByID_answer = (\<lambda>ctx orgId i nt. Inr someTeam),
      DeleteTeamByID_answer = (\<lambda>ctx orgId i. None)\<rparr>"

definition someData :: ResourceData where
  "someData =
     \<lparr>resource_id = ''42'', is_new_resource = False, name = ''core'',
      description = ''the core team'', privacy = ''closed'', parent_team_id = '''',
      ldap_dn = '''', create_default_maintainer = False, slug = ''core'', etag = ''W/old'',
      node_id = ''T_42'', members_count = 3, ldap_dn_prior = ''''\<rparr>"

text \<open>
  An organization where the delete call fails with a server error and the fetch that
  follows answers as given.
\<close>

definition failedDeleteOwner :: "error + Team \<times> string \<Rightarrow> Owner" where
  "failedDeleteOwner refetch =
     someOwner\<lparr>DeleteTeamByID_answer := (\<lambda>ctx orgId i. Some (ErrorResponse 500)),
               GetTeamByID_answer := (\<lambda>k ctx orgId i. refetch)\<rparr>"

text \<open>
  An organization where fetch number \<open>k\<close> (over the whole log) answers \<open>script k\<close>, and one
  where lookup number \<open>k\<close> of the parent answers \<open>script k\<close>.
\<close>

definition fetchScriptOwner :: "(nat \<Rightarrow> error + Team \<times> string) \<Rightarrow> Owner" where
  "fetchScriptOwner script = someOwner\<lparr>GetTeamByID_answer := (\<lambda>k ctx orgId i. script k)\<rparr>"

definition lookupScriptOwner :: "(nat \<Rightarrow> error + int) \<Rightarrow> Owner" where
  "lookupScriptOwner script = someOwner\<lparr>getTeamID_answer := (\<lambda>k s. script k)\<rparr>"

subsection \<open>How a log grows\<close>

text \<open>
  \<open>grows w w' ok nc ns\<close>: the log \<open>w'\<close> is \<open>w\<close> followed by new entries that all
  satisfy \<open>ok\<close>, among them at most \<open>nc\<close> remote calls and at most \<open>ns\<close> sleeps.
\<close>

definition grows :: "world \<Rightarrow> world \<Rightarrow> (call \<Rightarrow> bool) \<Rightarrow> nat \<Rightarrow> nat \<Rightarrow> bool" where
  "grows w w' ok nc ns =
     (\<exists>ev. w' = w @ ev \<and> list_all ok ev \<and> remote_calls ev \<le> nc \<and> calls_of is_Sleep ev \<le> ns)"

text \<open>The entries a parent resolution and a read may add to the log.\<close>

definition parentEvent :: "call \<Rightarrow> bool" where
  "parentEvent c = (c = Sleep github_team_api_wait \<or> is_getTeamID c)"

definition readEvent :: "call \<Rightarrow> bool" where
  "readEvent c = (c = Sleep github_team_api_wait \<or> is_GetTeamByID c)"

text \<open>The members the query reports for a team slug (none when the query fails).\<close>

definition queryNodes :: "Owner \<Rightarrow> string \<Rightarrow> string list" where
  "queryNodes meta teamSlug =
     (case Query_answer meta teamSlug (owner_name meta) of Inr nodes \<Rightarrow> nodes | Inl _ \<Rightarrow> [])"

text \<open>The entries the steps after the create call may add to the log.\<close>

definition maintainerEvent :: "call \<Rightarrow> bool" where
  "maintainerEvent c = (is_Query c \<or> is_RemoveTeamMembershipBySlug c)"

definition tailEvent :: "call \<Rightarrow> bool" where
  "tailEvent c = (maintainerEvent c \<or> is_UpdateTeamLDAPMapping c \<or> readEvent c)"

text \<open>An entry of the log that is not a sleep, or is a sleep of the fixed length.\<close>

definition fixedSleep :: "call \<Rightarrow> bool" where
  "fixedSleep c = (case c of Sleep secs \<Rightarrow> secs = github_team_api_wait | _ \<Rightarrow> True)"

text \<open>An organization where the query reports the given members for every team.\<close>

definition membersOwner :: "string list \<Rightarrow> Owner" where
  "membersOwner users = someOwner\<lparr>Query_answer := (\<lambda>teamSlug login. Inr users)\<rparr>"

text \<open>The same team after a rename: every field a read writes differs from \<open>someData\<close>.\<close>

definition renamedTeam :: Team where
  "renamedTeam =
     \<lparr>t_ID = 42, t_Name = ''platform'', t_Description = ''the platform team'',
      t_Privacy = ''secret'', t_Parent = Some 7, t_LDAPDN = ''cn=platform'',
      t_Slug = Some ''platform'', t_NodeID = ''T_42b'', t_MembersCount = 5\<rparr>"

section \<open>Properties\<close>

subsection \<open>Counting calls in a log\<close>

lemma calls_of_append: "calls_of P (u @ v) = calls_of P u + calls_of P v"
  by (simp add: calls_of_def)

lemma calls_of_Nil: "calls_of P [] = 0"
  by (simp add: calls_of_def)

lemma calls_of_Cons: "calls_of P (c # v) = (if P c then 1 else 0) + calls_of P v"
  by (simp add: calls_of_def)

lemma retries_0: "retries 0 c = []"
  by (simp add: retries_def)

lemma retries_Suc: "retries (Suc k) c = Sleep github_team_api_wait # c # retries k c"
  by (simp add: retries_def)

lemma calls_of_retries:
  "calls_of P (retries k c) = k * ((if P (Sleep github_team_api_wait) then 1 else 0) + (if P c then 1 else 0))"
  by (induction k) (simp_all add: retries_0 retries_Suc calls_of_Nil calls_of_Cons)

subsection \<open>The retry loop of the read\<close>

text \<open>One retry, then \<open>k\<close> retries in a row, then the whole read after \<open>k\<close> retries.\<close>

lemma readLoop_retry:
  assumes "n < github_team_api_retry" and "readRetries r"
  shows "readLoop meta ctx i n r w =
           readLoop meta ctx i (Suc n)
             (GetTeamByID_answer meta (calls_of is_GetTeamByID w) ctx (owner_id meta) i)
             (w @ [Sleep github_team_api_wait, Call_GetTeamByID ctx (owner_id meta) i])"
  using assms
  by (subst readLoop.simps)
     (auto simp: readRetries_def GetTeamByID_def sleep_def calls_of_append calls_of_Cons calls_of_Nil
           split: sum.splits error.splits)

lemma readLoop_skip:
  assumes "n + k \<le> github_team_api_retry"
      and "r = f 0"
      and "\<forall>j<k. f (Suc j) = GetTeamByID_answer meta (calls_of is_GetTeamByID w + j) ctx (owner_id meta) i"
      and "\<forall>j<k. readRetries (f j)"
  shows "readLoop meta ctx i n r w =
           readLoop meta ctx i (n + k) (f k) (w @ retries k (Call_GetTeamByID ctx (owner_id meta) i))"
  using assms
proof (induction k arbitrary: n r w f)
  case 0
  then show ?case by (simp add: retries_0)
next
  case (Suc k)
  let ?c = "Call_GetTeamByID ctx (owner_id meta) i"
  let ?w = "w @ [Sleep github_team_api_wait, ?c]"
  have n: "n < github_team_api_retry" using Suc.prems(1) by simp
  have r: "readRetries r" using Suc.prems(2,4) by simp
  have f1: "f (Suc 0) = GetTeamByID_answer meta (calls_of is_GetTeamByID w) ctx (owner_id meta) i"
    using Suc.prems(3) by force
  have step: "readLoop meta ctx i n r w = readLoop meta ctx i (Suc n) (f (Suc 0)) ?w"
    using readLoop_retry [OF n r] f1 by simp
  have cnt: "calls_of is_GetTeamByID ?w = Suc (calls_of is_GetTeamByID w)"
    by (simp add: calls_of_append calls_of_Cons calls_of_Nil)
  have "readLoop meta ctx i (Suc n) ((f \<circ> Suc) 0) ?w =
          readLoop meta ctx i (Suc n + k) ((f \<circ> Suc) k) (?w @ retries k ?c)"
  proof (rule Suc.IH)
    show "Suc n + k \<le> github_team_api_retry" using Suc.prems(1) by simp
    show "(f \<circ> Suc) 0 = (f \<circ> Suc) 0" by simp
    show "\<forall>j<k. (f \<circ> Suc) (Suc j) =
            GetTeamByID_answer meta (calls_of is_GetTeamByID ?w + j) ctx (owner_id meta) i"
      using Suc.prems(3) cnt by simp
    show "\<forall>j<k. readRetries ((f \<circ> Suc) j)" using Suc.prems(4) by simp
  qed
  with step show ?case by (simp add: retries_Suc)
qed
lemma read_skip:
  assumes org: "checkOrganization meta = None"
      and idp: "ParseInt (resource_id d) = Inr i"
      and k: "k \<le> github_team_api_retry"
      and retr: "\<forall>j<k. readRetries (readAnswer meta d w i j)"
  shows "resourceGithubTeamRead meta d w =
           (case readLoop meta (readContext d) i k (readAnswer meta d w i k)
                   (w @ readCall meta d i # retries k (readCall meta d i)) of
              (Return e, w2) \<Rightarrow> (e, d, w2)
            | (Next r', w2) \<Rightarrow> readAfterLoop r' d w2)"
proof -
  let ?c = "readCall meta d i"
  let ?f = "readAnswer meta d w i"
  have cnt: "calls_of is_GetTeamByID (w @ [?c]) = Suc (calls_of is_GetTeamByID w)"
    by (simp add: calls_of_append calls_of_Cons calls_of_Nil readCall_def)
  have "readLoop meta (readContext d) i 0 (?f 0) (w @ [?c]) =
          readLoop meta (readContext d) i (0 + k) (?f k)
            ((w @ [?c]) @ retries k (Call_GetTeamByID (readContext d) (owner_id meta) i))"
  proof (rule readLoop_skip)
    show "0 + k \<le> github_team_api_retry" using k by simp
    show "?f 0 = ?f 0" by simp
    show "\<forall>j<k. ?f (Suc j) =
            GetTeamByID_answer meta (calls_of is_GetTeamByID (w @ [?c]) + j) (readContext d)
              (owner_id meta) i"
      using cnt by (simp add: readAnswer_def)
    show "\<forall>j<k. readRetries (?f j)" using retr by simp
  qed
  then have loop: "readLoop meta (readContext d) i 0 (?f 0) (w @ [?c]) =
          readLoop meta (readContext d) i k (?f k) (w @ ?c # retries k ?c)"
    by (simp add: readCall_def)
  have first: "GetTeamByID meta (readContext d) (owner_id meta) i w = (?f 0, w @ [?c])"
    by (simp add: GetTeamByID_def readAnswer_def readCall_def)
  show ?thesis
    unfolding resourceGithubTeamRead_def
    by (simp add: org idp first loop Let_def split: prod.splits flow.splits)
qed

lemma readLoop_team: "readLoop meta ctx i n (Inr x) w = (Next (Inr x), w)"
  by (subst readLoop.simps) simp

lemma readLoop_not_modified:
  "readLoop meta ctx i n (Inl (ErrorResponse StatusNotModified)) w =
     (if n < github_team_api_retry then (Return None, w)
      else (Next (Inl (ErrorResponse StatusNotModified)), w))"
  by (subst readLoop.simps) simp

lemma readLoop_other_error:
  assumes "\<forall>status. e \<noteq> ErrorResponse status"
  shows "readLoop meta ctx i n (Inl e) w =
     (if n < github_team_api_retry then (Return (Some e), w) else (Next (Inl e), w))"
  using assms by (subst readLoop.simps) (simp split: error.splits)

lemma readLoop_exhausted: "readLoop meta ctx i github_team_api_retry r w = (Next r, w)"
  by (subst readLoop.simps) simp

lemma read_team:
  assumes "checkOrganization meta = None" and "ParseInt (resource_id d) = Inr i"
      and "k \<le> github_team_api_retry"
      and "\<forall>j<k. readRetries (readAnswer meta d w i j)"
      and "readAnswer meta d w i k = Inr (team, etagHeader)"
  shows "resourceGithubTeamRead meta d w =
           (None, setTeamFields team etagHeader d,
            w @ readCall meta d i # retries k (readCall meta d i))"
  using read_skip [OF assms(1-4)] assms(5)
  by (simp add: readLoop_team readAfterLoop_def)

lemma read_not_modified:
  assumes "checkOrganization meta = None" and "ParseInt (resource_id d) = Inr i"
      and "k \<le> github_team_api_retry"
      and "\<forall>j<k. readRetries (readAnswer meta d w i j)"
      and "readAnswer meta d w i k = Inl (ErrorResponse StatusNotModified)"
  shows "resourceGithubTeamRead meta d w =
           (None, d, w @ readCall meta d i # retries k (readCall meta d i))"
  using read_skip [OF assms(1-4)] assms(5)
  by (simp add: readLoop_not_modified readAfterLoop_def)

lemma read_other_error:
  assumes "checkOrganization meta = None" and "ParseInt (resource_id d) = Inr i"
      and "k \<le> github_team_api_retry"
      and "\<forall>j<k. readRetries (readAnswer meta d w i j)"
      and "readAnswer meta d w i k = Inl e" and "\<forall>status. e \<noteq> ErrorResponse status"
  shows "resourceGithubTeamRead meta d w =
           (Some e, d, w @ readCall meta d i # retries k (readCall meta d i))"
  using read_skip [OF assms(1-4)] assms(5,6)
  by (simp add: readLoop_other_error readAfterLoop_def split: error.splits)

lemma read_exhausted:
  assumes "checkOrganization meta = None" and "ParseInt (resource_id d) = Inr i"
      and "\<forall>j<github_team_api_retry. readRetries (readAnswer meta d w i j)"
  shows "resourceGithubTeamRead meta d w =
           readAfterLoop (readAnswer meta d w i github_team_api_retry) d
             (w @ readCall meta d i # retries github_team_api_retry (readCall meta d i))"
  using read_skip [OF assms(1,2) order_refl assms(3)]
  by (simp add: readLoop_exhausted)

subsection \<open>Delete\<close>

lemma ParseInt_42: "ParseInt ''42'' = Inr 42"
  by (simp add: ParseInt_def ParseUint_def isDigit_def digitVal_def maxUint64_def)

text \<open>What delete returns once the delete call has failed, by the answer of the re-fetch.\<close>

lemma delete_after_error:
  assumes "checkOrganization meta = None" and "ParseInt (resource_id d) = Inr i"
      and "DeleteTeamByID_answer meta (idContext d) (owner_id meta) i = Some e0"
  shows "resourceGithubTeamDelete meta d w =
     (let w2 = w @ [Call_DeleteTeamByID (idContext d) (owner_id meta) i,
                    Call_GetTeamByID (idContext d) (owner_id meta) i]
      in case GetTeamByID_answer meta (calls_of is_GetTeamByID w) (idContext d) (owner_id meta) i of
           Inl err2 \<Rightarrow>
             if err2 = ErrorResponse StatusNotFound then (None, d\<lparr>resource_id := ''''\<rparr>, w2)
             else (Some err2, d, w2)
         | Inr x \<Rightarrow> (None, d, w2))"
  using assms
  by (auto simp: resourceGithubTeamDelete_def DeleteTeamByID_def GetTeamByID_def Let_def
        calls_of_append calls_of_Cons calls_of_Nil split: sum.splits error.splits)

text \<open>
  When the delete call fails and the re-fetch finds the team, the variable that held the
  delete error now holds nil: delete returns nil with the identifier kept, and the error
  of the delete call is lost.
\<close>

lemma delete_error_lost_when_team_still_exists:
  assumes "checkOrganization meta = None" and "ParseInt (resource_id d) = Inr i"
      and "DeleteTeamByID_answer meta (idContext d) (owner_id meta) i = Some e0"
      and "GetTeamByID_answer meta (calls_of is_GetTeamByID w) (idContext d) (owner_id meta) i = Inr x"
  shows "resourceGithubTeamDelete meta d w =
           (None, d, w @ [Call_DeleteTeamByID (idContext d) (owner_id meta) i,
                          Call_GetTeamByID (idContext d) (owner_id meta) i])"
  using delete_after_error [OF assms(1-3), of w] assms(4) by simp

lemma delete_reports_success_for_existing_team:
  "resourceGithubTeamDelete (failedDeleteOwner (Inr (someTeam, ''W/abc''))) someData [] =
     (None, someData,
      [Call_DeleteTeamByID \<lparr>ctxId = Some ''42'', ctxEtag = None\<rparr> 1 42,
       Call_GetTeamByID \<lparr>ctxId = Some ''42'', ctxEtag = None\<rparr> 1 42])"
  by (simp add: resourceGithubTeamDelete_def failedDeleteOwner_def someOwner_def someData_def
        ParseInt_42 DeleteTeamByID_def GetTeamByID_def idContext_def calls_of_def
        StatusNotFound_def Let_def)

text \<open>
  Claim C1, as amended. If the delete call errors, delete re-fetches the team by id.
  When the re-fetch reports not-found, delete clears the local identifier and returns
  success. When the re-fetch fails with any other error, delete returns the error of the
  re-fetch (not the error of the delete call) and leaves the identifier as it was. In both
  cases exactly the delete call and one fetch are issued.
\<close>

theorem delete_refetch_decides:
  assumes "checkOrganization meta = None" and "ParseInt (resource_id d) = Inr i"
      and "DeleteTeamByID_answer meta (idContext d) (owner_id meta) i = Some e0"
      and "GetTeamByID_answer meta (calls_of is_GetTeamByID w) (idContext d) (owner_id meta) i = Inl e1"
  shows "resourceGithubTeamDelete meta d w =
           (if e1 = ErrorResponse StatusNotFound then None else Some e1,
            if e1 = ErrorResponse StatusNotFound then d\<lparr>resource_id := ''''\<rparr> else d,
            w @ [Call_DeleteTeamByID (idContext d) (owner_id meta) i,
                 Call_GetTeamByID (idContext d) (owner_id meta) i])"
  using delete_after_error [OF assms(1-3), of w] assms(4) by simp

text \<open>
  The theorem at two runs: the delete call fails with status 500 and the re-fetch answers
  404, then a timeout.
\<close>

theorem delete_refetch_decides_witness:
  "resourceGithubTeamDelete (failedDeleteOwner (Inl (ErrorResponse 404))) someData [] =
     (None, someData\<lparr>resource_id := ''''\<rparr>,
      [Call_DeleteTeamByID \<lparr>ctxId = Some ''42'', ctxEtag = None\<rparr> 1 42,
       Call_GetTeamByID \<lparr>ctxId = Some ''42'', ctxEtag = None\<rparr> 1 42])
   \<and> resourceGithubTeamDelete (failedDeleteOwner (Inl (OtherError ''timeout''))) someData [] =
     (Some (OtherError ''timeout''), someData,
      [Call_DeleteTeamByID \<lparr>ctxId = Some ''42'', ctxEtag = None\<rparr> 1 42,
       Call_GetTeamByID \<lparr>ctxId = Some ''42'', ctxEtag = None\<rparr> 1 42])"
  using delete_refetch_decides [of "failedDeleteOwner (Inl (ErrorResponse 404))" someData 42
          "ErrorResponse 500" "[]" "ErrorResponse 404"]
        delete_refetch_decides [of "failedDeleteOwner (Inl (OtherError ''timeout''))" someData 42
          "ErrorResponse 500" "[]" "OtherError ''timeout''"]
  by (simp add: failedDeleteOwner_def someOwner_def someData_def ParseInt_42 idContext_def
        StatusNotFound_def)

text \<open>
  Claim C1 as stated fails: the delete call fails with status 500, the re-fetch fails
  with status 502, and delete returns the 502 of the re-fetch, not the 500 of the delete
  call.
\<close>

theorem delete_returns_refetch_error:
  "DeleteTeamByID_answer (failedDeleteOwner (Inl (ErrorResponse 502))) (idContext someData) 1 42 =
     Some (ErrorResponse 500)
   \<and> resourceGithubTeamDelete (failedDeleteOwner (Inl (ErrorResponse 502))) someData [] =
     (Some (ErrorResponse 502), someData,
      [Call_DeleteTeamByID \<lparr>ctxId = Some ''42'', ctxEtag = None\<rparr> 1 42,
       Call_GetTeamByID \<lparr>ctxId = Some ''42'', ctxEtag = None\<rparr> 1 42])"
  by (simp add: resourceGithubTeamDelete_def failedDeleteOwner_def someOwner_def someData_def
        ParseInt_42 DeleteTeamByID_def GetTeamByID_def idContext_def calls_of_def
        StatusNotFound_def Let_def)

subsection \<open>Read\<close>

lemma readRetries_simps:
  "readRetries (Inl (ErrorResponse status)) = (status \<noteq> StatusNotModified)"
  "readRetries (Inl (OtherError m)) = False"
  "readRetries (Inl (UnconvertibleIdErr s pe)) = False"
  "readRetries (Inl NilDereference) = False"
  "readRetries (Inr x) = False"
  by (simp_all add: readRetries_def)

text \<open>
  Claim C2. When the lookup of the identifier answers not-found on the initial fetch and
  on every one of the \<open>github_team_api_retry\<close> retries, read sets the identifier to the
  empty string and returns no error; every other field is left as it was. The log gains
  the initial fetch and ten times a sleep and a fetch.
\<close>

theorem read_not_found_on_every_attempt:
  assumes "checkOrganization meta = None" and "ParseInt (resource_id d) = Inr i"
      and "\<forall>j\<le>github_team_api_retry. readAnswer meta d w i j = Inl (ErrorResponse StatusNotFound)"
  shows "resourceGithubTeamRead meta d w =
           (None, d\<lparr>resource_id := ''''\<rparr>,
            w @ readCall meta d i # retries github_team_api_retry (readCall meta d i))"
proof -
  have "\<forall>j<github_team_api_retry. readRetries (readAnswer meta d w i j)"
    using assms(3) by (simp add: readRetries_simps StatusNotFound_def StatusNotModified_def)
  from read_exhausted [OF assms(1,2) this] assms(3) show ?thesis
    by (simp add: readAfterLoop_def StatusNotFound_def StatusNotModified_def)
qed

theorem read_not_found_on_every_attempt_witness:
  "resourceGithubTeamRead (fetchScriptOwner (\<lambda>k. Inl (ErrorResponse 404))) someData [] =
     (None, someData\<lparr>resource_id := ''''\<rparr>,
      Call_GetTeamByID \<lparr>ctxId = Some ''42'', ctxEtag = Some ''W/old''\<rparr> 1 42
      # retries 10 (Call_GetTeamByID \<lparr>ctxId = Some ''42'', ctxEtag = Some ''W/old''\<rparr> 1 42))"
  using read_not_found_on_every_attempt
          [of "fetchScriptOwner (\<lambda>k. Inl (ErrorResponse 404))" someData 42 "[]"]
  by (simp add: fetchScriptOwner_def someOwner_def someData_def ParseInt_42 readAnswer_def
        readCall_def readContext_def StatusNotFound_def github_team_api_retry_def)

lemma readRetries_iff:
  "readRetries r = (\<exists>status. status \<noteq> StatusNotModified \<and> r = Inl (ErrorResponse status))"
  by (auto simp: readRetries_def split: sum.splits error.splits)

lemma FormatInt_7: "FormatInt 7 = ''7''"
  by (simp add: FormatInt_def decimalDigits.simps)

text \<open>
  Claim C3, as amended. Read retries every answer that is an \<open>ErrorResponse\<close> other than
  not-modified, not-found included, each retry after a sleep of \<open>github_team_api_wait\<close>
  seconds and at most \<open>github_team_api_retry\<close> times. After \<open>k\<close> such answers: a team
  is written to the resource data field by field (etag from the response header;
  description, name, privacy, ldap\_dn, node\_id and members\_count from the team; the
  parent's id in decimal, or the empty string; the slug, or the empty string), the
  identifier and the other fields stay, and read returns no error; an error that is not
  an \<open>ErrorResponse\<close> is returned at once, without a further retry; and when the retries
  are used up, the last answer is final: not-modified returns no error, not-found clears
  the identifier and returns no error, any other status is returned as the error.
\<close>

theorem read_retry_policy:
  assumes "checkOrganization meta = None" and "ParseInt (resource_id d) = Inr i"
      and "k \<le> github_team_api_retry"
      and "\<forall>j<k. \<exists>status. status \<noteq> StatusNotModified
                      \<and> readAnswer meta d w i j = Inl (ErrorResponse status)"
  shows "(\<forall>team etagHeader. readAnswer meta d w i k = Inr (team, etagHeader) \<longrightarrow>
            resourceGithubTeamRead meta d w =
              (None,
               d\<lparr>etag := etagHeader,
                 description := t_Description team,
                 name := t_Name team,
                 privacy := t_Privacy team,
                 parent_team_id := (case t_Parent team of Some p \<Rightarrow> FormatInt p | None \<Rightarrow> ''''),
                 ldap_dn := t_LDAPDN team,
                 slug := (case t_Slug team of Some s \<Rightarrow> s | None \<Rightarrow> ''''),
                 node_id := t_NodeID team,
                 members_count := t_MembersCount team\<rparr>,
               w @ readCall meta d i # retries k (readCall meta d i)))
       \<and> (\<forall>e. readAnswer meta d w i k = Inl e \<and> (\<forall>status. e \<noteq> ErrorResponse status) \<longrightarrow>
            resourceGithubTeamRead meta d w =
              (Some e, d, w @ readCall meta d i # retries k (readCall meta d i)))
       \<and> (\<forall>status. k = github_team_api_retry
              \<and> readAnswer meta d w i k = Inl (ErrorResponse status) \<longrightarrow>
            resourceGithubTeamRead meta d w =
              (if status = StatusNotModified \<or> status = StatusNotFound then None
               else Some (ErrorResponse status),
               if status = StatusNotFound then d\<lparr>resource_id := ''''\<rparr> else d,
               w @ readCall meta d i # retries k (readCall meta d i)))"
proof -
  have retr: "\<forall>j<k. readRetries (readAnswer meta d w i j)"
    using assms(4) by (simp add: readRetries_iff)
  note a = assms(1-3) retr
  show ?thesis
  proof (intro conjI allI impI)
    fix team etagHeader
    assume "readAnswer meta d w i k = Inr (team, etagHeader)"
    from read_team [OF a this]
    show "resourceGithubTeamRead meta d w =
              (None,
               d\<lparr>etag := etagHeader,
                 description := t_Description team,
                 name := t_Name team,
                 privacy := t_Privacy team,
                 parent_team_id := (case t_Parent team of Some p \<Rightarrow> FormatInt p | None \<Rightarrow> ''''),
                 ldap_dn := t_LDAPDN team,
                 slug := (case t_Slug team of Some s \<Rightarrow> s | None \<Rightarrow> ''''),
                 node_id := t_NodeID team,
                 members_count := t_MembersCount team\<rparr>,
               w @ readCall meta d i # retries k (readCall meta d i))"
      by (simp add: setTeamFields_def)
  next
    fix e
    assume "readAnswer meta d w i k = Inl e \<and> (\<forall>status. e \<noteq> ErrorResponse status)"
    then show "resourceGithubTeamRead meta d w =
              (Some e, d, w @ readCall meta d i # retries k (readCall meta d i))"
      using read_other_error [OF a] by blast
  next
    fix status
    assume h: "k = github_team_api_retry \<and> readAnswer meta d w i k = Inl (ErrorResponse status)"
    then have kk: "k = github_team_api_retry"
      and ans: "readAnswer meta d w i github_team_api_retry = Inl (ErrorResponse status)"
      by blast+
    have "\<forall>j<github_team_api_retry. readRetries (readAnswer meta d w i j)"
      using retr kk by simp
    from read_exhausted [OF assms(1,2) this]
    show "resourceGithubTeamRead meta d w =
              (if status = StatusNotModified \<or> status = StatusNotFound then None
               else Some (ErrorResponse status),
               if status = StatusNotFound then d\<lparr>resource_id := ''''\<rparr> else d,
               w @ readCall meta d i # retries k (readCall meta d i))"
      by (simp add: kk ans readAfterLoop_def StatusNotFound_def StatusNotModified_def)
  qed
qed

text \<open>
  The theorem at three runs: the fetch answers 404, then 500, then the renamed team, and
  every field a read writes changes; the fetch answers 404 and then fails with an error
  that is not an \<open>ErrorResponse\<close>; the fetch answers 500 every time.
\<close>

theorem read_retry_policy_witness:
  "resourceGithubTeamRead
     (fetchScriptOwner
        (\<lambda>k. if k = 0 then Inl (ErrorResponse 404)
              else if k = 1 then Inl (ErrorResponse 500)
              else Inr (renamedTeam, ''W/new'')))
     someData [] =
     (None,
      \<lparr>resource_id = ''42'', is_new_resource = False, name = ''platform'',
       description = ''the platform team'', privacy = ''secret'', parent_team_id = ''7'',
       ldap_dn = ''cn=platform'', create_default_maintainer = False, slug = ''platform'',
       etag = ''W/new'', node_id = ''T_42b'', members_count = 5, ldap_dn_prior = ''''\<rparr>,
      [Call_GetTeamByID \<lparr>ctxId = Some ''42'', ctxEtag = Some ''W/old''\<rparr> 1 42,
       Sleep 5,
       Call_GetTeamByID \<lparr>ctxId = Some ''42'', ctxEtag = Some ''W/old''\<rparr> 1 42,
       Sleep 5,
       Call_GetTeamByID \<lparr>ctxId = Some ''42'', ctxEtag = Some ''W/old''\<rparr> 1 42])
   \<and> resourceGithubTeamRead
     (fetchScriptOwner
        (\<lambda>k. if k = 0 then Inl (ErrorResponse 404) else Inl (OtherError ''connection reset'')))
     someData [] =
     (Some (OtherError ''connection reset''), someData,
      [Call_GetTeamByID \<lparr>ctxId = Some ''42'', ctxEtag = Some ''W/old''\<rparr> 1 42,
       Sleep 5,
       Call_GetTeamByID \<lparr>ctxId = Some ''42'', ctxEtag = Some ''W/old''\<rparr> 1 42])
   \<and> resourceGithubTeamRead (fetchScriptOwner (\<lambda>k. Inl (ErrorResponse 500))) someData [] =
     (Some (ErrorResponse 500), someData,
      Call_GetTeamByID \<lparr>ctxId = Some ''42'', ctxEtag = Some ''W/old''\<rparr> 1 42
      # retries 10 (Call_GetTeamByID \<lparr>ctxId = Some ''42'', ctxEtag = Some ''W/old''\<rparr> 1 42))"
  using read_retry_policy
          [of "fetchScriptOwner
                 (\<lambda>k. if k = 0 then Inl (ErrorResponse 404)
                       else if k = 1 then Inl (ErrorResponse 500)
                       else Inr (renamedTeam, ''W/new''))" someData 42 2 "[]"]
        read_retry_policy
          [of "fetchScriptOwner
                 (\<lambda>k. if k = 0 then Inl (ErrorResponse 404)
                       else Inl (OtherError ''connection reset''))" someData 42 1 "[]"]
        read_retry_policy
          [of "fetchScriptOwner (\<lambda>k. Inl (ErrorResponse 500))" someData 42 10 "[]"]
  by (simp add: fetchScriptOwner_def someOwner_def someData_def renamedTeam_def ParseInt_42
        FormatInt_7 readAnswer_def readCall_def readContext_def StatusNotModified_def
        StatusNotFound_def github_team_api_retry_def github_team_api_wait_def calls_of_def
        retries_0 retries_Suc less_Suc_eq eval_nat_numeral)

text \<open>
  Claim C3 as stated fails: the first fetch fails with an error that is not an
  \<open>ErrorResponse\<close> (line 212), and read returns it after that single fetch, with no
  sleep and no retry, although the next fetch would have answered with the team.
\<close>

theorem read_other_error_not_retried:
  "resourceGithubTeamRead
     (fetchScriptOwner
        (\<lambda>k. if k = 0 then Inl (OtherError ''connection reset'') else Inr (someTeam, ''W/new'')))
     someData [] =
     (Some (OtherError ''connection reset''), someData,
      [Call_GetTeamByID \<lparr>ctxId = Some ''42'', ctxEtag = Some ''W/old''\<rparr> 1 42])"
  using read_other_error
          [of "fetchScriptOwner
                 (\<lambda>k. if k = 0 then Inl (OtherError ''connection reset'')
                       else Inr (someTeam, ''W/new''))" someData 42 0 "[]"
              "OtherError ''connection reset''"]
  by (simp add: fetchScriptOwner_def someOwner_def someData_def ParseInt_42 readAnswer_def
        readCall_def readContext_def retries_def calls_of_def)

text \<open>
  Claim C5. For a resource that is not new, read sends the stored etag with every fetch;
  when the remote side answers not-modified (to the first fetch, or to a retry after
  answers that read retries), read returns no error and the resource data is exactly what
  it was: no field is written.
\<close>

theorem read_not_modified_is_noop:
  assumes "checkOrganization meta = None" and "ParseInt (resource_id d) = Inr i"
      and "\<not> is_new_resource d"
      and "k \<le> github_team_api_retry"
      and "\<forall>j<k. readRetries (readAnswer meta d w i j)"
      and "readAnswer meta d w i k = Inl (ErrorResponse StatusNotModified)"
  shows "resourceGithubTeamRead meta d w =
           (None, d, w @ readCall meta d i # retries k (readCall meta d i))
         \<and> readCall meta d i =
             Call_GetTeamByID \<lparr>ctxId = Some (resource_id d), ctxEtag = Some (etag d)\<rparr>
               (owner_id meta) i"
  using read_not_modified [OF assms(1,2,4,5,6)] assms(3)
  by (simp add: readCall_def readContext_def)

theorem read_not_modified_is_noop_witness:
  "resourceGithubTeamRead (fetchScriptOwner (\<lambda>k. Inl (ErrorResponse 304))) someData [] =
     (None, someData,
      [Call_GetTeamByID \<lparr>ctxId = Some ''42'', ctxEtag = Some ''W/old''\<rparr> 1 42])"
  using read_not_modified_is_noop
          [of "fetchScriptOwner (\<lambda>k. Inl (ErrorResponse 304))" someData 42 0 "[]"]
  by (simp add: fetchScriptOwner_def someOwner_def someData_def ParseInt_42 readAnswer_def
        readCall_def readContext_def StatusNotModified_def retries_def)

subsection \<open>How the log grows\<close>

lemma remote_calls_append: "remote_calls (u @ v) = remote_calls u + remote_calls v"
  by (simp add: remote_calls_def)

lemma grows_refl: "grows w w ok 0 0"
  by (simp add: grows_def remote_calls_def calls_of_def)

lemma grows_call: "ok c \<Longrightarrow> \<not> is_Sleep c \<Longrightarrow> grows w (w @ [c]) ok 1 0"
  by (simp add: grows_def remote_calls_def calls_of_def)

lemma grows_sleep: "ok (Sleep n) \<Longrightarrow> grows w (w @ [Sleep n]) ok 0 1"
  by (simp add: grows_def remote_calls_def calls_of_def)

lemma grows_trans:
  assumes "grows w w1 ok a b" and "grows w1 w2 ok c d"
  shows "grows w w2 ok (a + c) (b + d)"
proof -
  from assms(1) obtain u where u: "w1 = w @ u" "list_all ok u" "remote_calls u \<le> a"
    "calls_of is_Sleep u \<le> b" by (auto simp: grows_def)
  from assms(2) obtain v where v: "w2 = w1 @ v" "list_all ok v" "remote_calls v \<le> c"
    "calls_of is_Sleep v \<le> d" by (auto simp: grows_def)
  have "w2 = w @ (u @ v)" using u(1) v(1) by simp
  moreover have "list_all ok (u @ v)" using u(2) v(2) by simp
  moreover have "remote_calls (u @ v) \<le> a + c" using u(3) v(3) by (simp add: remote_calls_append)
  moreover have "calls_of is_Sleep (u @ v) \<le> b + d" using u(4) v(4) by (simp add: calls_of_append)
  ultimately show ?thesis unfolding grows_def by blast
qed

lemma grows_weaken:
  assumes "grows w w' ok a b" and "\<And>c. ok c \<Longrightarrow> ok' c" and "a \<le> a'" and "b \<le> b'"
  shows "grows w w' ok' a' b'"
proof -
  from assms(1) obtain u where u: "w' = w @ u" "list_all ok u" "remote_calls u \<le> a"
    "calls_of is_Sleep u \<le> b" by (auto simp: grows_def)
  have "list_all ok' u" using u(2) assms(2) by (auto simp: list_all_iff)
  with u assms(3,4) show ?thesis unfolding grows_def
    by (intro exI [of _ u]) simp
qed

lemma grows_remote_calls: "grows w w' ok a b \<Longrightarrow> remote_calls w' \<le> remote_calls w + a"
  by (auto simp: grows_def remote_calls_append)

lemma grows_sleeps: "grows w w' ok a b \<Longrightarrow> calls_of is_Sleep w' \<le> calls_of is_Sleep w + b"
  by (auto simp: grows_def calls_of_append)

lemma grows_calls_of_same:
  assumes "grows w w' ok a b" and "\<And>c. ok c \<Longrightarrow> \<not> P c"
  shows "calls_of P w' = calls_of P w"
proof -
  from assms(1) obtain u where u: "w' = w @ u" "list_all ok u" by (auto simp: grows_def)
  have "filter P u = []" using u(2) assms(2) by (auto simp: list_all_iff filter_empty_conv)
  then show ?thesis using u(1) by (simp add: calls_of_def)
qed

lemma grows_new: "grows w w' ok a b \<Longrightarrow> list_all ok (drop (length w) w')"
  by (auto simp: grows_def)

lemma grows_prefix: "grows w w' ok a b \<Longrightarrow> take (length w) w' = w"
  by (auto simp: grows_def)

lemma grows_exists: "grows w w' ok a b \<Longrightarrow> \<exists>ev. w' = w @ ev"
  by (auto simp: grows_def)

text \<open>A read adds at most eleven fetches and ten sleeps of the fixed length, and nothing else.\<close>

lemma readLoop_grows:
  "grows w (snd (readLoop meta ctx i n r w)) readEvent
     (github_team_api_retry - n) (github_team_api_retry - n)"
proof (induction meta ctx i n r w rule: readLoop.induct)
  case (1 meta ctx i n r w)
  let ?w = "w @ [Sleep github_team_api_wait, Call_GetTeamByID ctx (owner_id meta) i]"
  let ?a = "GetTeamByID_answer meta (calls_of is_GetTeamByID w) ctx (owner_id meta) i"
  show ?case
  proof (cases "n < github_team_api_retry \<and> readRetries r")
    case True
    then have n: "n < github_team_api_retry" and r: "readRetries r" by simp_all
    from r obtain status where st: "r = Inl (ErrorResponse status)" "status \<noteq> StatusNotModified"
      by (auto simp: readRetries_def split: sum.splits error.splits)
    have gt: "GetTeamByID meta ctx (owner_id meta) i (sleep github_team_api_wait w) = (?a, ?w)"
      by (simp add: GetTeamByID_def sleep_def calls_of_append calls_of_Cons calls_of_Nil)
    have ih: "grows ?w (snd (readLoop meta ctx i (n + 1) ?a ?w)) readEvent
                (github_team_api_retry - (n + 1)) (github_team_api_retry - (n + 1))"
    proof (cases "status = StatusNotFound")
      case True
      show ?thesis
        by (rule "1.IH"(1) [OF n st(1) refl st(2) True refl refl gt [symmetric]])
    next
      case False
      show ?thesis
        by (rule "1.IH"(2) [OF n st(1) refl st(2) False refl refl gt [symmetric]])
    qed
    have "grows w ?w readEvent 1 1"
      using grows_trans [OF grows_sleep [of readEvent github_team_api_wait w]
          grows_call [of readEvent "Call_GetTeamByID ctx (owner_id meta) i"
                         "w @ [Sleep github_team_api_wait]"]]
      by (simp add: readEvent_def)
    from grows_trans [OF this ih]
    have "grows w (snd (readLoop meta ctx i (n + 1) ?a ?w)) readEvent
            (github_team_api_retry - n) (github_team_api_retry - n)"
      by (rule grows_weaken) (use n in simp_all)
    moreover have "readLoop meta ctx i n r w = readLoop meta ctx i (Suc n) ?a ?w"
      by (rule readLoop_retry [OF n r])
    ultimately show ?thesis by simp
  next
    case False
    then have "snd (readLoop meta ctx i n r w) = w"
      by (subst readLoop.simps)
         (auto simp: readRetries_def split: sum.splits error.splits)
    then show ?thesis using grows_weaken [OF grows_refl [of w readEvent]] by simp
  qed
qed

lemma read_grows:
  "grows w (snd (snd (resourceGithubTeamRead meta d w))) readEvent
     (Suc github_team_api_retry) github_team_api_retry"
proof (cases "checkOrganization meta = None \<and> (\<exists>i. ParseInt (resource_id d) = Inr i)")
  case True
  then obtain i where org: "checkOrganization meta = None" and i: "ParseInt (resource_id d) = Inr i"
    by blast
  let ?c = "readCall meta d i"
  let ?w = "w @ [?c]"
  have first: "GetTeamByID meta (readContext d) (owner_id meta) i w = (readAnswer meta d w i 0, ?w)"
    by (simp add: GetTeamByID_def readAnswer_def readCall_def)
  have "snd (snd (resourceGithubTeamRead meta d w)) =
          snd (readLoop meta (readContext d) i 0 (readAnswer meta d w i 0) ?w)"
    unfolding resourceGithubTeamRead_def
    by (simp add: org i first Let_def readAfterLoop_def
          split: prod.splits flow.splits sum.splits error.splits)
  moreover have "grows w ?w readEvent 1 0"
    by (rule grows_call) (simp_all add: readEvent_def readCall_def)
  moreover note readLoop_grows [of ?w meta "readContext d" i 0 "readAnswer meta d w i 0"]
  ultimately show ?thesis
    using grows_trans [of w ?w readEvent 1 0 _ "github_team_api_retry - 0" "github_team_api_retry - 0"]
    by simp
next
  case False
  then have "snd (snd (resourceGithubTeamRead meta d w)) = w"
    unfolding resourceGithubTeamRead_def by (auto split: option.splits sum.splits)
  then show ?thesis using grows_weaken [OF grows_refl [of w readEvent]] by simp
qed

subsection \<open>The parent resolution of create and update\<close>

text \<open>One retry of the lookup, \<open>k\<close> retries in a row, and the whole resolution after \<open>k\<close> retries.\<close>

lemma createParentLoop_retry:
  assumes "n < github_team_api_retry"
  shows "createParentLoop meta s n (Inl e) w =
           createParentLoop meta s (Suc n)
             (getTeamID_answer meta (calls_of is_getTeamID w) s)
             (w @ [Sleep github_team_api_wait, Call_getTeamID s])"
  using assms
  by (subst createParentLoop.simps)
     (simp add: getTeamID_def sleep_def calls_of_append calls_of_Cons calls_of_Nil)

lemma createParentLoop_found: "createParentLoop meta s n (Inr t) w = (Inr t, w)"
  by (subst createParentLoop.simps) simp

lemma createParentLoop_exhausted: "createParentLoop meta s github_team_api_retry r w = (r, w)"
  by (subst createParentLoop.simps) simp

lemma createParentLoop_skip:
  assumes "n + k \<le> github_team_api_retry"
      and "r = f 0"
      and "\<forall>j<k. f (Suc j) = getTeamID_answer meta (calls_of is_getTeamID w + j) s"
      and "\<forall>j<k. isl (f j)"
  shows "createParentLoop meta s n r w =
           createParentLoop meta s (n + k) (f k) (w @ retries k (Call_getTeamID s))"
  using assms
proof (induction k arbitrary: n r w f)
  case 0
  then show ?case by (simp add: retries_0)
next
  case (Suc k)
  let ?c = "Call_getTeamID s"
  let ?w = "w @ [Sleep github_team_api_wait, ?c]"
  have n: "n < github_team_api_retry" using Suc.prems(1) by simp
  have "isl r" using Suc.prems(2,4) by simp
  then obtain e where r: "r = Inl e" by (cases r) auto
  have f1: "f (Suc 0) = getTeamID_answer meta (calls_of is_getTeamID w) s"
    using Suc.prems(3) by force
  have step: "createParentLoop meta s n r w = createParentLoop meta s (Suc n) (f (Suc 0)) ?w"
    using createParentLoop_retry [OF n] f1 r by simp
  have cnt: "calls_of is_getTeamID ?w = Suc (calls_of is_getTeamID w)"
    by (simp add: calls_of_append calls_of_Cons calls_of_Nil)
  have "createParentLoop meta s (Suc n) ((f \<circ> Suc) 0) ?w =
          createParentLoop meta s (Suc n + k) ((f \<circ> Suc) k) (?w @ retries k ?c)"
  proof (rule Suc.IH)
    show "Suc n + k \<le> github_team_api_retry" using Suc.prems(1) by simp
    show "(f \<circ> Suc) 0 = (f \<circ> Suc) 0" by simp
    show "\<forall>j<k. (f \<circ> Suc) (Suc j) = getTeamID_answer meta (calls_of is_getTeamID ?w + j) s"
      using Suc.prems(3) cnt by simp
    show "\<forall>j<k. isl ((f \<circ> Suc) j)" using Suc.prems(4) by simp
  qed
  with step show ?case by (simp add: retries_Suc)
qed

lemma createParentTeamId_skip:
  assumes "k \<le> github_team_api_retry" and "\<forall>j<k. isl (lookupAnswer meta w s j)"
  shows "createParentTeamId meta s w =
           createParentLoop meta s k (lookupAnswer meta w s k)
             (w @ Call_getTeamID s # retries k (Call_getTeamID s))"
proof -
  let ?c = "Call_getTeamID s"
  let ?f = "lookupAnswer meta w s"
  have cnt: "calls_of is_getTeamID (w @ [?c]) = Suc (calls_of is_getTeamID w)"
    by (simp add: calls_of_append calls_of_Cons calls_of_Nil)
  have "createParentLoop meta s 0 (?f 0) (w @ [?c]) =
          createParentLoop meta s (0 + k) (?f k) ((w @ [?c]) @ retries k ?c)"
  proof (rule createParentLoop_skip)
    show "0 + k \<le> github_team_api_retry" using assms(1) by simp
    show "?f 0 = ?f 0" by simp
    show "\<forall>j<k. ?f (Suc j) = getTeamID_answer meta (calls_of is_getTeamID (w @ [?c]) + j) s"
      using cnt by (simp add: lookupAnswer_def)
    show "\<forall>j<k. isl (?f j)" using assms(2) by simp
  qed
  then show ?thesis
    by (simp add: createParentTeamId_def getTeamID_def lookupAnswer_def)
qed

lemma createParentTeamId_found:
  assumes "k \<le> github_team_api_retry" and "\<forall>j<k. isl (lookupAnswer meta w s j)"
      and "lookupAnswer meta w s k = Inr t"
  shows "createParentTeamId meta s w =
           (Inr t, w @ Call_getTeamID s # retries k (Call_getTeamID s))"
  using createParentTeamId_skip [OF assms(1,2)] assms(3) by (simp add: createParentLoop_found)

lemma createParentTeamId_exhausted:
  assumes "\<forall>j<github_team_api_retry. isl (lookupAnswer meta w s j)"
  shows "createParentTeamId meta s w =
           (lookupAnswer meta w s github_team_api_retry,
            w @ Call_getTeamID s # retries github_team_api_retry (Call_getTeamID s))"
  using createParentTeamId_skip [OF order_refl assms] by (simp add: createParentLoop_exhausted)

text \<open>The loop of update computes, step for step, what the loop of create computes.\<close>

lemma updateParentLoop_eq: "updateParentLoop meta s n r w = createParentLoop meta s n r w"
proof (induction meta s n r w rule: createParentLoop.induct)
  case (1 meta s n r w)
  show ?case
  proof (cases "n < github_team_api_retry \<and> isl r")
    case True
    then obtain e where n: "n < github_team_api_retry" and r: "r = Inl e" by (cases r) auto
    obtain r' w2 where g: "getTeamID meta s (sleep github_team_api_wait w) = (r', w2)"
      by (cases "getTeamID meta s (sleep github_team_api_wait w)")
    have "updateParentLoop meta s (n + 1) r' w2 = createParentLoop meta s (n + 1) r' w2"
      by (rule "1.IH" [OF n r refl refl g [symmetric]])
    then show ?thesis
      using n r g
      by (subst updateParentLoop.simps, subst createParentLoop.simps) simp
  next
    case False
    then show ?thesis
      by (subst updateParentLoop.simps, subst createParentLoop.simps) (auto split: sum.splits)
  qed
qed



text \<open>The parent resolution, the removal of the default maintainers and the LDAP mapping.\<close>

lemma createParentLoop_grows:
  "grows w (snd (createParentLoop meta s n r w)) parentEvent
     (github_team_api_retry - n) (github_team_api_retry - n)"
proof (induction meta s n r w rule: createParentLoop.induct)
  case (1 meta s n r w)
  let ?w = "w @ [Sleep github_team_api_wait, Call_getTeamID s]"
  let ?a = "getTeamID_answer meta (calls_of is_getTeamID w) s"
  show ?case
  proof (cases "n < github_team_api_retry \<and> isl r")
    case True
    then obtain e where n: "n < github_team_api_retry" and r: "r = Inl e" by (cases r) auto
    have gt: "getTeamID meta s (sleep github_team_api_wait w) = (?a, ?w)"
      by (simp add: getTeamID_def sleep_def calls_of_append calls_of_Cons calls_of_Nil)
    have ih: "grows ?w (snd (createParentLoop meta s (n + 1) ?a ?w)) parentEvent
                (github_team_api_retry - (n + 1)) (github_team_api_retry - (n + 1))"
      by (rule "1.IH" [OF n r refl refl gt [symmetric]])
    have "grows w ?w parentEvent 1 1"
      using grows_trans [OF grows_sleep [of parentEvent github_team_api_wait w]
          grows_call [of parentEvent "Call_getTeamID s" "w @ [Sleep github_team_api_wait]"]]
      by (simp add: parentEvent_def)
    from grows_trans [OF this ih]
    have "grows w (snd (createParentLoop meta s (n + 1) ?a ?w)) parentEvent
            (github_team_api_retry - n) (github_team_api_retry - n)"
      by (rule grows_weaken) (use n in simp_all)
    moreover have "createParentLoop meta s n r w = createParentLoop meta s (Suc n) ?a ?w"
      using createParentLoop_retry [OF n] r by simp
    ultimately show ?thesis by simp
  next
    case False
    then have "snd (createParentLoop meta s n r w) = w"
      by (subst createParentLoop.simps) (auto split: sum.splits)
    then show ?thesis using grows_weaken [OF grows_refl [of w parentEvent]] by simp
  qed
qed

lemma createParentTeamId_grows:
  "grows w (snd (createParentTeamId meta s w)) parentEvent
     (Suc github_team_api_retry) github_team_api_retry"
proof -
  let ?w = "w @ [Call_getTeamID s]"
  have "grows w ?w parentEvent 1 0"
    by (rule grows_call) (simp_all add: parentEvent_def)
  from grows_trans [OF this createParentLoop_grows [of ?w meta s 0 "lookupAnswer meta w s 0"]]
  show ?thesis
    by (simp add: createParentTeamId_def getTeamID_def lookupAnswer_def)
qed

lemma createNewTeam_grows:
  "grows w (snd (createNewTeam meta d w)) parentEvent
     (Suc github_team_api_retry) github_team_api_retry"
proof (cases "parent_team_id d = ''''")
  case True
  then have "snd (createNewTeam meta d w) = w" by (simp add: createNewTeam_def)
  then show ?thesis using grows_weaken [OF grows_refl [of w parentEvent]] by simp
next
  case False
  then have "snd (createNewTeam meta d w) = snd (createParentTeamId meta (parent_team_id d) w)"
    by (simp add: createNewTeam_def Let_def split: prod.splits sum.splits)
  then show ?thesis using createParentTeamId_grows [of w meta "parent_team_id d"] by simp
qed

lemma removeMembers_grows:
  "grows w (snd (removeMembers meta teamSlug users w)) maintainerEvent (length users) 0"
proof (induction users arbitrary: w)
  case Nil
  then show ?case by (simp add: grows_refl)
next
  case (Cons user users)
  let ?c = "Call_RemoveTeamMembershipBySlug (owner_name meta) teamSlug user"
  have step: "grows w (w @ [?c]) maintainerEvent 1 0"
    by (rule grows_call) (simp_all add: maintainerEvent_def)
  show ?case
  proof (cases "RemoveTeamMembershipBySlug_answer meta (calls_of is_RemoveTeamMembershipBySlug w)
                  (owner_name meta) teamSlug user")
    case None
    then have "snd (removeMembers meta teamSlug (user # users) w) =
                 snd (removeMembers meta teamSlug users (w @ [?c]))"
      by (simp add: RemoveTeamMembershipBySlug_def)
    then show ?thesis using grows_trans [OF step Cons.IH [of "w @ [?c]"]] by simp
  next
    case (Some e)
    then have "snd (removeMembers meta teamSlug (user # users) w) = w @ [?c]"
      by (simp add: RemoveTeamMembershipBySlug_def)
    then show ?thesis using grows_weaken [OF step, of maintainerEvent "length (user # users)" 0]
      by simp
  qed
qed

lemma removeDefaultMaintainer_grows:
  "grows w (snd (removeDefaultMaintainer meta teamSlug w)) maintainerEvent
     (Suc (length (queryNodes meta teamSlug))) 0"
proof -
  let ?c = "Call_Query teamSlug (owner_name meta)"
  have step: "grows w (w @ [?c]) maintainerEvent 1 0"
    by (rule grows_call) (simp_all add: maintainerEvent_def)
  show ?thesis
  proof (cases "Query_answer meta teamSlug (owner_name meta)")
    case (Inl e)
    then have "snd (removeDefaultMaintainer meta teamSlug w) = w @ [?c]"
      by (simp add: removeDefaultMaintainer_def Query_def)
    then show ?thesis
      using grows_weaken [OF step, of maintainerEvent "Suc (length (queryNodes meta teamSlug))" 0]
      by simp
  next
    case (Inr nodes)
    then have "snd (removeDefaultMaintainer meta teamSlug w) =
                 snd (removeMembers meta teamSlug nodes (w @ [?c]))"
      and "queryNodes meta teamSlug = nodes"
      by (simp_all add: removeDefaultMaintainer_def Query_def queryNodes_def)
    then show ?thesis
      using grows_trans [OF step removeMembers_grows [of "w @ [?c]" meta teamSlug nodes]] by simp
  qed
qed

lemma createRemoveMaintainer_grows:
  "grows w (snd (createRemoveMaintainer meta d githubTeam w)) maintainerEvent
     (Suc (length (queryNodes meta (case t_Slug githubTeam of Some s \<Rightarrow> s | None \<Rightarrow> [])))) 0"
proof (cases "\<not> create_default_maintainer d \<and> t_Slug githubTeam \<noteq> None")
  case True
  then obtain teamSlug where s: "t_Slug githubTeam = Some teamSlug" by auto
  have "snd (createRemoveMaintainer meta d githubTeam w) =
          snd (removeDefaultMaintainer meta teamSlug w)"
    using True s by (simp add: createRemoveMaintainer_def)
  then show ?thesis
    using removeDefaultMaintainer_grows [of w meta teamSlug] s by simp
next
  case False
  then have "snd (createRemoveMaintainer meta d githubTeam w) = w"
    by (auto simp: createRemoveMaintainer_def split: option.splits)
  then show ?thesis using grows_weaken [OF grows_refl [of w maintainerEvent]] by simp
qed

lemma createLdapMapping_grows:
  "grows w (snd (createLdapMapping meta d githubTeam w)) is_UpdateTeamLDAPMapping 1 0"
proof (cases "ldap_dn d = ''''")
  case True
  then have "snd (createLdapMapping meta d githubTeam w) = w"
    by (simp add: createLdapMapping_def)
  then show ?thesis using grows_weaken [OF grows_refl [of w is_UpdateTeamLDAPMapping]] by simp
next
  case False
  then have "snd (createLdapMapping meta d githubTeam w) =
               w @ [Call_UpdateTeamLDAPMapping (t_ID githubTeam) (ldap_dn d)]"
    by (simp add: createLdapMapping_def UpdateTeamLDAPMapping_def)
  then show ?thesis
    using grows_call [of is_UpdateTeamLDAPMapping
                         "Call_UpdateTeamLDAPMapping (t_ID githubTeam) (ldap_dn d)" w]
    by simp
qed

lemma updateLdapMapping_grows:
  "grows w (snd (updateLdapMapping meta d team w)) is_UpdateTeamLDAPMapping 1 0"
proof (cases "HasChange_ldap_dn d")
  case False
  then have "snd (updateLdapMapping meta d team w) = w"
    by (simp add: updateLdapMapping_def)
  then show ?thesis using grows_weaken [OF grows_refl [of w is_UpdateTeamLDAPMapping]] by simp
next
  case True
  then have "snd (updateLdapMapping meta d team w) =
               w @ [Call_UpdateTeamLDAPMapping (t_ID team) (ldap_dn d)]"
    by (simp add: updateLdapMapping_def UpdateTeamLDAPMapping_def)
  then show ?thesis
    using grows_call [of is_UpdateTeamLDAPMapping
                         "Call_UpdateTeamLDAPMapping (t_ID team) (ldap_dn d)" w]
    by simp
qed

subsection \<open>Create\<close>

text \<open>Create, unfolded along the answers of its calls.\<close>

lemma create_unfold:
  assumes "checkOrganization meta = None" and "createNewTeam meta d w = (Inr nt, w1)"
      and "CreateTeam_answer meta (owner_name meta) nt = Inr t"
  shows "resourceGithubTeamCreate meta d w =
     (case createRemoveMaintainer meta d t (w1 @ [Call_CreateTeam (owner_name meta) nt]) of
        (merr, w3) \<Rightarrow>
          (case merr of
             Some e \<Rightarrow> (Some e, d, w3)
           | None \<Rightarrow>
               (case createLdapMapping meta d t w3 of
                  (lerr, w4) \<Rightarrow>
                    (case lerr of
                       Some e \<Rightarrow> (Some e, d, w4)
                     | None \<Rightarrow>
                         resourceGithubTeamRead meta (d\<lparr>resource_id := FormatInt (t_ID t)\<rparr>) w4))))"
  using assms
  by (auto simp: resourceGithubTeamCreate_def CreateTeam_def Let_def
        split: prod.splits option.splits)

lemma create_CreateTeam_fails:
  assumes "checkOrganization meta = None" and "createNewTeam meta d w = (Inr nt, w1)"
      and "CreateTeam_answer meta (owner_name meta) nt = Inl e"
  shows "resourceGithubTeamCreate meta d w =
           (Some e, d, w1 @ [Call_CreateTeam (owner_name meta) nt])"
  using assms
  by (simp add: resourceGithubTeamCreate_def CreateTeam_def Let_def split: prod.splits)

lemma create_parent_fails:
  assumes "checkOrganization meta = None" and "createNewTeam meta d w = (Inl e, w1)"
  shows "resourceGithubTeamCreate meta d w = (Some e, d, w1)"
  using assms
  by (simp add: resourceGithubTeamCreate_def Let_def split: prod.splits)

lemma tailEvent_intros:
  "maintainerEvent c \<Longrightarrow> tailEvent c"
  "is_UpdateTeamLDAPMapping c \<Longrightarrow> tailEvent c"
  "readEvent c \<Longrightarrow> tailEvent c"
  by (simp_all add: tailEvent_def)

lemma create_tail_grows:
  assumes "checkOrganization meta = None" and "createNewTeam meta d w = (Inr nt, w1)"
  shows "grows (w1 @ [Call_CreateTeam (owner_name meta) nt])
           (snd (snd (resourceGithubTeamCreate meta d w))) tailEvent
           (Suc (length (queryNodes meta
                   (case CreateTeam_answer meta (owner_name meta) nt of
                      Inr t \<Rightarrow> (case t_Slug t of Some s \<Rightarrow> s | None \<Rightarrow> [])
                    | Inl _ \<Rightarrow> [])))
            + 1 + Suc github_team_api_retry)
           github_team_api_retry"
proof (cases "CreateTeam_answer meta (owner_name meta) nt")
  case (Inl e)
  show ?thesis
    using grows_weaken [OF grows_refl [of "w1 @ [Call_CreateTeam (owner_name meta) nt]" tailEvent]]
    by (simp add: create_CreateTeam_fails [OF assms Inl])
next
  case (Inr t)
  let ?w2 = "w1 @ [Call_CreateTeam (owner_name meta) nt]"
  let ?m = "Suc (length (queryNodes meta (case t_Slug t of Some s \<Rightarrow> s | None \<Rightarrow> [])))"
  obtain merr w3 where m: "createRemoveMaintainer meta d t ?w2 = (merr, w3)"
    by (cases "createRemoveMaintainer meta d t ?w2")
  obtain lerr w4 where l: "createLdapMapping meta d t w3 = (lerr, w4)"
    by (cases "createLdapMapping meta d t w3")
  have g3: "grows ?w2 w3 tailEvent ?m 0"
    using grows_weaken [OF createRemoveMaintainer_grows [of ?w2 meta d t], of tailEvent ?m 0] m
    by (simp add: tailEvent_intros)
  have g4: "grows w3 w4 tailEvent 1 0"
    using grows_weaken [OF createLdapMapping_grows [of w3 meta d t], of tailEvent 1 0] l
    by (simp add: tailEvent_intros)
  have g5: "grows w4 (snd (snd (resourceGithubTeamRead meta d' w4))) tailEvent
              (Suc github_team_api_retry) github_team_api_retry" for d'
    using grows_weaken [OF read_grows [of w4 meta d'], of tailEvent
                          "Suc github_team_api_retry" github_team_api_retry]
    by (simp add: tailEvent_intros)
  have u: "snd (snd (resourceGithubTeamCreate meta d w)) =
             (case merr of Some e \<Rightarrow> w3
              | None \<Rightarrow> (case lerr of Some e \<Rightarrow> w4
                  | None \<Rightarrow> snd (snd (resourceGithubTeamRead meta
                                        (d\<lparr>resource_id := FormatInt (t_ID t)\<rparr>) w4))))"
    by (simp add: create_unfold [OF assms Inr] m l split: option.splits)
  show ?thesis
  proof (cases merr)
    case (Some e)
    then show ?thesis using grows_weaken [OF g3] u Inr by simp
  next
    case None
    note mn = this
    show ?thesis
    proof (cases lerr)
      case (Some e)
      then show ?thesis using grows_weaken [OF grows_trans [OF g3 g4]] u mn Inr by simp
    next
      case None
      then show ?thesis
        using grows_trans [OF grows_trans [OF g3 g4] g5 [of "d\<lparr>resource_id := FormatInt (t_ID t)\<rparr>"]]
              u mn Inr by simp
    qed
  qed
qed

text \<open>What the entries of each phase are not.\<close>

lemma parentEvent_not:
  "parentEvent c \<Longrightarrow> \<not> is_CreateTeam c"
  "parentEvent c \<Longrightarrow> \<not> is_DeleteTeamByID c"
  "parentEvent c \<Longrightarrow> \<not> is_EditTeamByID c"
  "parentEvent c \<Longrightarrow> \<not> is_UpdateTeamLDAPMapping c"
  by (cases c; simp add: parentEvent_def)+

lemma tailEvent_not:
  "tailEvent c \<Longrightarrow> \<not> is_CreateTeam c"
  "tailEvent c \<Longrightarrow> \<not> is_DeleteTeamByID c"
  "tailEvent c \<Longrightarrow> \<not> is_EditTeamByID c"
  by (cases c; simp add: tailEvent_def maintainerEvent_def readEvent_def)+

lemma readEvent_not:
  "readEvent c \<Longrightarrow> \<not> is_CreateTeam c"
  "readEvent c \<Longrightarrow> \<not> is_DeleteTeamByID c"
  "readEvent c \<Longrightarrow> \<not> is_EditTeamByID c"
  "readEvent c \<Longrightarrow> \<not> is_UpdateTeamLDAPMapping c"
  by (cases c; simp add: readEvent_def)+

lemma no_sleep_events:
  "maintainerEvent c \<Longrightarrow> \<not> is_Sleep c"
  "is_UpdateTeamLDAPMapping c \<Longrightarrow> \<not> is_Sleep c"
  by (cases c; simp add: maintainerEvent_def)+

lemma create_parent_found:
  assumes "checkOrganization meta = None" and "parent_team_id d \<noteq> ''''"
      and "k \<le> github_team_api_retry"
      and "\<forall>j<k. isl (lookupAnswer meta w (parent_team_id d) j)"
      and "lookupAnswer meta w (parent_team_id d) k = Inr t"
  shows "\<exists>rest. snd (snd (resourceGithubTeamCreate meta d w)) =
           w @ Call_getTeamID (parent_team_id d) # retries k (Call_getTeamID (parent_team_id d))
             @ Call_CreateTeam (owner_name meta) ((teamOf d)\<lparr>nt_ParentTeamID := Some t\<rparr>) # rest"
proof -
  let ?w1 = "w @ Call_getTeamID (parent_team_id d) # retries k (Call_getTeamID (parent_team_id d))"
  let ?nt = "(teamOf d)\<lparr>nt_ParentTeamID := Some t\<rparr>"
  have nt: "createNewTeam meta d w = (Inr ?nt, ?w1)"
    using createParentTeamId_found [OF assms(3,4,5)] assms(2)
    by (simp add: createNewTeam_def Let_def)
  from grows_exists [OF create_tail_grows [OF assms(1) nt]]
  obtain ev where "snd (snd (resourceGithubTeamCreate meta d w)) =
      (?w1 @ [Call_CreateTeam (owner_name meta) ?nt]) @ ev" by blast
  then show ?thesis by simp
qed

lemma create_parent_never_found:
  assumes "checkOrganization meta = None" and "parent_team_id d \<noteq> ''''"
      and "\<forall>j\<le>github_team_api_retry. lookupAnswer meta w (parent_team_id d) j = Inl (e j)"
  shows "resourceGithubTeamCreate meta d w =
           (Some (e github_team_api_retry), d,
            w @ Call_getTeamID (parent_team_id d)
              # retries github_team_api_retry (Call_getTeamID (parent_team_id d)))"
proof -
  have "\<forall>j<github_team_api_retry. isl (lookupAnswer meta w (parent_team_id d) j)"
    using assms(3) by simp
  from createParentTeamId_exhausted [OF this] assms(3)
  have "createNewTeam meta d w =
          (Inl (e github_team_api_retry),
           w @ Call_getTeamID (parent_team_id d)
             # retries github_team_api_retry (Call_getTeamID (parent_team_id d)))"
    using assms(2) by (simp add: createNewTeam_def Let_def)
  from create_parent_fails [OF assms(1) this] show ?thesis .
qed

text \<open>
  Claim C4. For create with \<^verbatim>\<open>parent_team_id\<close> set, the parent lookup is retried on any
  error it returns, each retry after a sleep of \<open>github_team_api_wait\<close> seconds, at most
  \<open>github_team_api_retry\<close> times after the first lookup. If lookup number \<open>k\<close> (at most the
  retry count) is the first to succeed, the log shows the first lookup, \<open>k\<close> retries and
  then the create call, sent with the resolved id as parent. If the first lookup and all
  \<open>github_team_api_retry\<close> retries fail, create returns the error of the last lookup with the
  resource data unchanged, after exactly eleven lookups and ten sleeps, and no create
  call is issued.
\<close>

theorem create_parent_lookup_retried:
  assumes "checkOrganization meta = None" and "parent_team_id d \<noteq> ''''"
  shows "(\<forall>k t. k \<le> github_team_api_retry
            \<and> (\<forall>j<k. isl (lookupAnswer meta w (parent_team_id d) j))
            \<and> lookupAnswer meta w (parent_team_id d) k = Inr t \<longrightarrow>
            (\<exists>rest. snd (snd (resourceGithubTeamCreate meta d w)) =
               w @ Call_getTeamID (parent_team_id d)
                 # retries k (Call_getTeamID (parent_team_id d))
                 @ Call_CreateTeam (owner_name meta) ((teamOf d)\<lparr>nt_ParentTeamID := Some t\<rparr>)
                 # rest))
       \<and> (\<forall>e. (\<forall>j\<le>github_team_api_retry. lookupAnswer meta w (parent_team_id d) j = Inl (e j)) \<longrightarrow>
            resourceGithubTeamCreate meta d w =
              (Some (e github_team_api_retry), d,
               w @ Call_getTeamID (parent_team_id d)
                 # retries github_team_api_retry (Call_getTeamID (parent_team_id d)))
            \<and> calls_of is_getTeamID (snd (snd (resourceGithubTeamCreate meta d w))) =
                calls_of is_getTeamID w + Suc github_team_api_retry
            \<and> calls_of is_Sleep (snd (snd (resourceGithubTeamCreate meta d w))) =
                calls_of is_Sleep w + github_team_api_retry
            \<and> calls_of is_CreateTeam (snd (snd (resourceGithubTeamCreate meta d w))) =
                calls_of is_CreateTeam w)"
proof (intro conjI allI impI)
  fix k t
  assume "k \<le> github_team_api_retry
            \<and> (\<forall>j<k. isl (lookupAnswer meta w (parent_team_id d) j))
            \<and> lookupAnswer meta w (parent_team_id d) k = Inr t"
  then show "\<exists>rest. snd (snd (resourceGithubTeamCreate meta d w)) =
               w @ Call_getTeamID (parent_team_id d)
                 # retries k (Call_getTeamID (parent_team_id d))
                 @ Call_CreateTeam (owner_name meta) ((teamOf d)\<lparr>nt_ParentTeamID := Some t\<rparr>)
                 # rest"
    using create_parent_found [OF assms, of k w t] by blast
next
  fix e
  assume a: "\<forall>j\<le>github_team_api_retry. lookupAnswer meta w (parent_team_id d) j = Inl (e j)"
  note r = create_parent_never_found [OF assms a]
  show "resourceGithubTeamCreate meta d w =
              (Some (e github_team_api_retry), d,
               w @ Call_getTeamID (parent_team_id d)
                 # retries github_team_api_retry (Call_getTeamID (parent_team_id d)))"
    by (rule r)
  show "calls_of is_getTeamID (snd (snd (resourceGithubTeamCreate meta d w))) =
                calls_of is_getTeamID w + Suc github_team_api_retry"
    by (simp add: r calls_of_append calls_of_Cons calls_of_retries)
  show "calls_of is_Sleep (snd (snd (resourceGithubTeamCreate meta d w))) =
                calls_of is_Sleep w + github_team_api_retry"
    by (simp add: r calls_of_append calls_of_Cons calls_of_retries)
  show "calls_of is_CreateTeam (snd (snd (resourceGithubTeamCreate meta d w))) =
                calls_of is_CreateTeam w"
    by (simp add: r calls_of_append calls_of_Cons calls_of_retries)
qed

text \<open>
  The theorem at two runs: the lookup times out twice and then finds team 7; the lookup
  fails every time, with status \<open>400 + k\<close> at lookup \<open>k\<close>, so that the last error is 410.
\<close>

theorem create_parent_lookup_retried_witness:
  "(\<exists>rest. snd (snd (resourceGithubTeamCreate
        (lookupScriptOwner (\<lambda>k. if k < 2 then Inl (OtherError ''timeout'') else Inr 7))
        (someData\<lparr>parent_team_id := ''parents''\<rparr>) [])) =
      [Call_getTeamID ''parents'', Sleep 5, Call_getTeamID ''parents'', Sleep 5,
       Call_getTeamID ''parents'',
       Call_CreateTeam ''acme''
         \<lparr>nt_Name = ''core'', nt_Description = ''the core team'', nt_Privacy = ''closed'',
          nt_ParentTeamID = Some 7\<rparr>] @ rest)
   \<and> resourceGithubTeamCreate
        (lookupScriptOwner (\<lambda>k. Inl (ErrorResponse (400 + int k))))
        (someData\<lparr>parent_team_id := ''parents''\<rparr>) [] =
      (Some (ErrorResponse 410), someData\<lparr>parent_team_id := ''parents''\<rparr>,
       Call_getTeamID ''parents'' # retries 10 (Call_getTeamID ''parents''))"
  using create_parent_lookup_retried
          [of "lookupScriptOwner (\<lambda>k. if k < 2 then Inl (OtherError ''timeout'') else Inr 7)"
              "someData\<lparr>parent_team_id := ''parents''\<rparr>" "[]",
           THEN conjunct1, THEN spec, THEN spec, of 2 7]
        create_parent_lookup_retried
          [of "lookupScriptOwner (\<lambda>k. Inl (ErrorResponse (400 + int k)))"
              "someData\<lparr>parent_team_id := ''parents''\<rparr>" "[]",
           THEN conjunct2, THEN spec, of "\<lambda>k. ErrorResponse (400 + int k)"]
  by (simp add: lookupScriptOwner_def someOwner_def someData_def lookupAnswer_def calls_of_def
        teamOf_def github_team_api_retry_def github_team_api_wait_def retries_def
        less_Suc_eq eval_nat_numeral)

lemma create_calls_CreateTeam_once:
  assumes "checkOrganization meta = None" and "createNewTeam meta d w = (Inr nt, w1)"
  shows "calls_of is_CreateTeam (snd (snd (resourceGithubTeamCreate meta d w))) =
           Suc (calls_of is_CreateTeam w)"
    and "calls_of is_DeleteTeamByID (snd (snd (resourceGithubTeamCreate meta d w))) =
           calls_of is_DeleteTeamByID w"
proof -
  let ?w2 = "w1 @ [Call_CreateTeam (owner_name meta) nt]"
  let ?w' = "snd (snd (resourceGithubTeamCreate meta d w))"
  have g1: "grows w w1 parentEvent (Suc github_team_api_retry) github_team_api_retry"
    using createNewTeam_grows [of w meta d] assms(2) by simp
  note g2 = create_tail_grows [OF assms]
  have "calls_of is_CreateTeam ?w' = calls_of is_CreateTeam ?w2"
    by (rule grows_calls_of_same [OF g2]) (rule tailEvent_not)
  also have "\<dots> = Suc (calls_of is_CreateTeam w1)"
    by (simp add: calls_of_append calls_of_Cons calls_of_Nil)
  also have "calls_of is_CreateTeam w1 = calls_of is_CreateTeam w"
    by (rule grows_calls_of_same [OF g1]) (rule parentEvent_not)
  finally show "calls_of is_CreateTeam ?w' = Suc (calls_of is_CreateTeam w)" .
  have "calls_of is_DeleteTeamByID ?w' = calls_of is_DeleteTeamByID ?w2"
    by (rule grows_calls_of_same [OF g2]) (rule tailEvent_not)
  also have "\<dots> = calls_of is_DeleteTeamByID w1"
    by (simp add: calls_of_append calls_of_Cons calls_of_Nil)
  also have "calls_of is_DeleteTeamByID w1 = calls_of is_DeleteTeamByID w"
    by (rule grows_calls_of_same [OF g1]) (rule parentEvent_not)
  finally show "calls_of is_DeleteTeamByID ?w' = calls_of is_DeleteTeamByID w" .
qed

text \<open>Which call of the steps after the create call fails, and what create returns then.\<close>

lemma removeMembers_fails_at:
  assumes "j < length users"
      and "\<forall>i<j. RemoveTeamMembershipBySlug_answer meta
                    (calls_of is_RemoveTeamMembershipBySlug w + i) (owner_name meta) teamSlug
                    (users ! i) = None"
      and "RemoveTeamMembershipBySlug_answer meta
             (calls_of is_RemoveTeamMembershipBySlug w + j) (owner_name meta) teamSlug
             (users ! j) = Some e"
  shows "removeMembers meta teamSlug users w =
           (Some e,
            w @ map (Call_RemoveTeamMembershipBySlug (owner_name meta) teamSlug)
                  (take (Suc j) users))"
  using assms
proof (induction users arbitrary: j w)
  case Nil
  then show ?case by simp
next
  case (Cons user users)
  let ?c = "Call_RemoveTeamMembershipBySlug (owner_name meta) teamSlug user"
  show ?case
  proof (cases j)
    case 0
    then show ?thesis using Cons.prems(3) by (simp add: RemoveTeamMembershipBySlug_def)
  next
    case (Suc j')
    have first: "RemoveTeamMembershipBySlug_answer meta
                   (calls_of is_RemoveTeamMembershipBySlug w) (owner_name meta) teamSlug user = None"
      using Cons.prems(2) Suc by force
    have cnt: "calls_of is_RemoveTeamMembershipBySlug (w @ [?c]) =
                 Suc (calls_of is_RemoveTeamMembershipBySlug w)"
      by (simp add: calls_of_append calls_of_Cons calls_of_Nil)
    have "removeMembers meta teamSlug users (w @ [?c]) =
            (Some e,
             (w @ [?c]) @ map (Call_RemoveTeamMembershipBySlug (owner_name meta) teamSlug)
                            (take (Suc j') users))"
    proof (rule Cons.IH)
      show "j' < length users" using Cons.prems(1) Suc by simp
      show "\<forall>i<j'. RemoveTeamMembershipBySlug_answer meta
                    (calls_of is_RemoveTeamMembershipBySlug (w @ [?c]) + i) (owner_name meta)
                    teamSlug (users ! i) = None"
      proof (intro allI impI)
        fix i assume "i < j'"
        then have "Suc i < j" using Suc by simp
        from Cons.prems(2) [rule_format, OF this] show
          "RemoveTeamMembershipBySlug_answer meta
             (calls_of is_RemoveTeamMembershipBySlug (w @ [?c]) + i) (owner_name meta)
             teamSlug (users ! i) = None"
          by (simp add: cnt)
      qed
      show "RemoveTeamMembershipBySlug_answer meta
             (calls_of is_RemoveTeamMembershipBySlug (w @ [?c]) + j') (owner_name meta) teamSlug
             (users ! j') = Some e"
        using Cons.prems(3) Suc by (simp add: cnt)
    qed
    then show ?thesis using first Suc by (simp add: RemoveTeamMembershipBySlug_def)
  qed
qed

lemma removeMembers_succeeds:
  assumes "\<forall>i<length users. RemoveTeamMembershipBySlug_answer meta
                    (calls_of is_RemoveTeamMembershipBySlug w + i) (owner_name meta) teamSlug
                    (users ! i) = None"
  shows "removeMembers meta teamSlug users w =
           (None, w @ map (Call_RemoveTeamMembershipBySlug (owner_name meta) teamSlug) users)"
  using assms
proof (induction users arbitrary: w)
  case Nil
  then show ?case by simp
next
  case (Cons user users)
  let ?c = "Call_RemoveTeamMembershipBySlug (owner_name meta) teamSlug user"
  have first: "RemoveTeamMembershipBySlug_answer meta
                 (calls_of is_RemoveTeamMembershipBySlug w) (owner_name meta) teamSlug user = None"
    using Cons.prems by force
  have cnt: "calls_of is_RemoveTeamMembershipBySlug (w @ [?c]) =
               Suc (calls_of is_RemoveTeamMembershipBySlug w)"
    by (simp add: calls_of_append calls_of_Cons calls_of_Nil)
  have "removeMembers meta teamSlug users (w @ [?c]) =
          (None, (w @ [?c]) @ map (Call_RemoveTeamMembershipBySlug (owner_name meta) teamSlug) users)"
  proof (rule Cons.IH, intro allI impI)
    fix i assume "i < length users"
    then have "Suc i < length (user # users)" by simp
    from Cons.prems [rule_format, OF this] show
      "RemoveTeamMembershipBySlug_answer meta
         (calls_of is_RemoveTeamMembershipBySlug (w @ [?c]) + i) (owner_name meta)
         teamSlug (users ! i) = None"
      by (simp add: cnt)
  qed
  then show ?case using first by (simp add: RemoveTeamMembershipBySlug_def)
qed

text \<open>The log after the create call and the query: no removal has been made since \<open>w1\<close>.\<close>

lemma removals_before_query:
  "calls_of is_RemoveTeamMembershipBySlug (w1 @ [Call_CreateTeam org nt, Call_Query s login]) =
     calls_of is_RemoveTeamMembershipBySlug w1"
  by (simp add: calls_of_append calls_of_Cons calls_of_Nil)

lemma create_nil_slug:
  assumes "checkOrganization meta = None" and "createNewTeam meta d w = (Inr nt, w1)"
      and "CreateTeam_answer meta (owner_name meta) nt = Inr t"
      and "\<not> create_default_maintainer d" and "t_Slug t = None"
  shows "resourceGithubTeamCreate meta d w =
           (Some NilDereference, d, w1 @ [Call_CreateTeam (owner_name meta) nt])"
  using assms(4,5)
  by (simp add: create_unfold [OF assms(1-3)] createRemoveMaintainer_def)

lemma create_query_fails:
  assumes "checkOrganization meta = None" and "createNewTeam meta d w = (Inr nt, w1)"
      and "CreateTeam_answer meta (owner_name meta) nt = Inr t"
      and "\<not> create_default_maintainer d" and "t_Slug t = Some s"
      and "Query_answer meta s (owner_name meta) = Inl e"
  shows "resourceGithubTeamCreate meta d w =
           (Some e, d,
            w1 @ [Call_CreateTeam (owner_name meta) nt, Call_Query s (owner_name meta)])"
  using assms(4-6)
  by (simp add: create_unfold [OF assms(1-3)] createRemoveMaintainer_def
        removeDefaultMaintainer_def Query_def)

lemma create_removal_fails:
  assumes "checkOrganization meta = None" and "createNewTeam meta d w = (Inr nt, w1)"
      and "CreateTeam_answer meta (owner_name meta) nt = Inr t"
      and "\<not> create_default_maintainer d" and "t_Slug t = Some s"
      and "Query_answer meta s (owner_name meta) = Inr users"
      and "j < length users"
      and "\<forall>i<j. RemoveTeamMembershipBySlug_answer meta
                    (calls_of is_RemoveTeamMembershipBySlug w1 + i) (owner_name meta) s
                    (users ! i) = None"
      and "RemoveTeamMembershipBySlug_answer meta
             (calls_of is_RemoveTeamMembershipBySlug w1 + j) (owner_name meta) s
             (users ! j) = Some e"
  shows "resourceGithubTeamCreate meta d w =
           (Some e, d,
            w1 @ Call_CreateTeam (owner_name meta) nt # Call_Query s (owner_name meta)
               # map (Call_RemoveTeamMembershipBySlug (owner_name meta) s) (take (Suc j) users))"
proof -
  let ?w = "w1 @ [Call_CreateTeam (owner_name meta) nt, Call_Query s (owner_name meta)]"
  have "removeMembers meta s users ?w =
          (Some e, ?w @ map (Call_RemoveTeamMembershipBySlug (owner_name meta) s)
                          (take (Suc j) users))"
    by (rule removeMembers_fails_at [OF assms(7)])
       (use assms(8,9) in \<open>simp_all add: removals_before_query\<close>)
  then have "createRemoveMaintainer meta d t (w1 @ [Call_CreateTeam (owner_name meta) nt]) =
               (Some e, ?w @ map (Call_RemoveTeamMembershipBySlug (owner_name meta) s)
                               (take (Suc j) users))"
    using assms(4-6)
    by (simp add: createRemoveMaintainer_def removeDefaultMaintainer_def Query_def)
  then show ?thesis by (simp add: create_unfold [OF assms(1-3)])
qed

lemma create_ldap_fails_maintainer_kept:
  assumes "checkOrganization meta = None" and "createNewTeam meta d w = (Inr nt, w1)"
      and "CreateTeam_answer meta (owner_name meta) nt = Inr t"
      and "create_default_maintainer d" and "ldap_dn d \<noteq> ''''"
      and "UpdateTeamLDAPMapping_answer meta (t_ID t) (ldap_dn d) = Some e"
  shows "resourceGithubTeamCreate meta d w =
           (Some e, d,
            w1 @ [Call_CreateTeam (owner_name meta) nt,
                  Call_UpdateTeamLDAPMapping (t_ID t) (ldap_dn d)])"
  using assms(4-6)
  by (simp add: create_unfold [OF assms(1-3)] createRemoveMaintainer_def createLdapMapping_def
        UpdateTeamLDAPMapping_def)

lemma create_ldap_fails_maintainers_removed:
  assumes "checkOrganization meta = None" and "createNewTeam meta d w = (Inr nt, w1)"
      and "CreateTeam_answer meta (owner_name meta) nt = Inr t"
      and "\<not> create_default_maintainer d" and "t_Slug t = Some s"
      and "Query_answer meta s (owner_name meta) = Inr users"
      and "\<forall>i<length users. RemoveTeamMembershipBySlug_answer meta
                    (calls_of is_RemoveTeamMembershipBySlug w1 + i) (owner_name meta) s
                    (users ! i) = None"
      and "ldap_dn d \<noteq> ''''"
      and "UpdateTeamLDAPMapping_answer meta (t_ID t) (ldap_dn d) = Some e"
  shows "resourceGithubTeamCreate meta d w =
           (Some e, d,
            w1 @ Call_CreateTeam (owner_name meta) nt # Call_Query s (owner_name meta)
               # map (Call_RemoveTeamMembershipBySlug (owner_name meta) s) users
               @ [Call_UpdateTeamLDAPMapping (t_ID t) (ldap_dn d)])"
proof -
  let ?w = "w1 @ [Call_CreateTeam (owner_name meta) nt, Call_Query s (owner_name meta)]"
  have "removeMembers meta s users ?w =
          (None, ?w @ map (Call_RemoveTeamMembershipBySlug (owner_name meta) s) users)"
    by (rule removeMembers_succeeds) (use assms(7) in \<open>simp add: removals_before_query\<close>)
  then have "createRemoveMaintainer meta d t (w1 @ [Call_CreateTeam (owner_name meta) nt]) =
               (None, ?w @ map (Call_RemoveTeamMembershipBySlug (owner_name meta) s) users)"
    using assms(4-6)
    by (simp add: createRemoveMaintainer_def removeDefaultMaintainer_def Query_def)
  then show ?thesis
    using assms(8,9)
    by (simp add: create_unfold [OF assms(1-3)] createLdapMapping_def UpdateTeamLDAPMapping_def)
qed

text \<open>
  Claim C6. Once the team to create is built (the parent resolved, if any), create issues
  exactly one create call and no delete call. A failed create call is returned after that
  single call. After a successful create call each later call is made once and its
  failure ends create with that error: the query for the members; the removal of member
  number \<open>j\<close>, after the removals before it succeeded (the log shows the query and the
  \<open>j + 1\<close> removals, no sleep and no second try); the LDAP mapping, whether the default
  maintainer was kept or all members were removed. A team without a slug ends create at
  the dereference. In every one of these cases the resource data is returned unchanged
  (\<^verbatim>\<open>d.SetId\<close> has not run), and the team created remotely stays: nothing is rolled back.
\<close>

theorem create_single_call_no_rollback:
  assumes "checkOrganization meta = None" and "createNewTeam meta d w = (Inr nt, w1)"
  shows "calls_of is_CreateTeam (snd (snd (resourceGithubTeamCreate meta d w))) =
           Suc (calls_of is_CreateTeam w)
       \<and> calls_of is_DeleteTeamByID (snd (snd (resourceGithubTeamCreate meta d w))) =
           calls_of is_DeleteTeamByID w
       \<and> (\<forall>e. CreateTeam_answer meta (owner_name meta) nt = Inl e \<longrightarrow>
            resourceGithubTeamCreate meta d w =
              (Some e, d, w1 @ [Call_CreateTeam (owner_name meta) nt]))
       \<and> (\<forall>t. CreateTeam_answer meta (owner_name meta) nt = Inr t
            \<and> \<not> create_default_maintainer d \<and> t_Slug t = None \<longrightarrow>
            resourceGithubTeamCreate meta d w =
              (Some NilDereference, d, w1 @ [Call_CreateTeam (owner_name meta) nt]))
       \<and> (\<forall>t s e. CreateTeam_answer meta (owner_name meta) nt = Inr t
            \<and> \<not> create_default_maintainer d \<and> t_Slug t = Some s
            \<and> Query_answer meta s (owner_name meta) = Inl e \<longrightarrow>
            resourceGithubTeamCreate meta d w =
              (Some e, d,
               w1 @ [Call_CreateTeam (owner_name meta) nt, Call_Query s (owner_name meta)]))
       \<and> (\<forall>t s users j e. CreateTeam_answer meta (owner_name meta) nt = Inr t
            \<and> \<not> create_default_maintainer d \<and> t_Slug t = Some s
            \<and> Query_answer meta s (owner_name meta) = Inr users
            \<and> j < length users
            \<and> (\<forall>i<j. RemoveTeamMembershipBySlug_answer meta
                         (calls_of is_RemoveTeamMembershipBySlug w1 + i) (owner_name meta) s
                         (users ! i) = None)
            \<and> RemoveTeamMembershipBySlug_answer meta
                 (calls_of is_RemoveTeamMembershipBySlug w1 + j) (owner_name meta) s
                 (users ! j) = Some e \<longrightarrow>
            resourceGithubTeamCreate meta d w =
              (Some e, d,
               w1 @ Call_CreateTeam (owner_name meta) nt # Call_Query s (owner_name meta)
                  # map (Call_RemoveTeamMembershipBySlug (owner_name meta) s)
                      (take (Suc j) users)))
       \<and> (\<forall>t e. CreateTeam_answer meta (owner_name meta) nt = Inr t
            \<and> create_default_maintainer d \<and> ldap_dn d \<noteq> ''''
            \<and> UpdateTeamLDAPMapping_answer meta (t_ID t) (ldap_dn d) = Some e \<longrightarrow>
            resourceGithubTeamCreate meta d w =
              (Some e, d,
               w1 @ [Call_CreateTeam (owner_name meta) nt,
                     Call_UpdateTeamLDAPMapping (t_ID t) (ldap_dn d)]))
       \<and> (\<forall>t s users e. CreateTeam_answer meta (owner_name meta) nt = Inr t
            \<and> \<not> create_default_maintainer d \<and> t_Slug t = Some s
            \<and> Query_answer meta s (owner_name meta) = Inr users
            \<and> (\<forall>i<length users. RemoveTeamMembershipBySlug_answer meta
                         (calls_of is_RemoveTeamMembershipBySlug w1 + i) (owner_name meta) s
                         (users ! i) = None)
            \<and> ldap_dn d \<noteq> ''''
            \<and> UpdateTeamLDAPMapping_answer meta (t_ID t) (ldap_dn d) = Some e \<longrightarrow>
            resourceGithubTeamCreate meta d w =
              (Some e, d,
               w1 @ Call_CreateTeam (owner_name meta) nt # Call_Query s (owner_name meta)
                  # map (Call_RemoveTeamMembershipBySlug (owner_name meta) s) users
                  @ [Call_UpdateTeamLDAPMapping (t_ID t) (ldap_dn d)]))"
proof (intro conjI allI impI)
  show "calls_of is_CreateTeam (snd (snd (resourceGithubTeamCreate meta d w))) =
           Suc (calls_of is_CreateTeam w)"
    by (rule create_calls_CreateTeam_once(1) [OF assms])
  show "calls_of is_DeleteTeamByID (snd (snd (resourceGithubTeamCreate meta d w))) =
           calls_of is_DeleteTeamByID w"
    by (rule create_calls_CreateTeam_once(2) [OF assms])
next
  fix e
  assume "CreateTeam_answer meta (owner_name meta) nt = Inl e"
  from create_CreateTeam_fails [OF assms this]
  show "resourceGithubTeamCreate meta d w =
          (Some e, d, w1 @ [Call_CreateTeam (owner_name meta) nt])" .
next
  fix t
  assume "CreateTeam_answer meta (owner_name meta) nt = Inr t
            \<and> \<not> create_default_maintainer d \<and> t_Slug t = None"
  then show "resourceGithubTeamCreate meta d w =
          (Some NilDereference, d, w1 @ [Call_CreateTeam (owner_name meta) nt])"
    using create_nil_slug [OF assms, of t] by blast
next
  fix t s e
  assume "CreateTeam_answer meta (owner_name meta) nt = Inr t
            \<and> \<not> create_default_maintainer d \<and> t_Slug t = Some s
            \<and> Query_answer meta s (owner_name meta) = Inl e"
  then show "resourceGithubTeamCreate meta d w =
              (Some e, d,
               w1 @ [Call_CreateTeam (owner_name meta) nt, Call_Query s (owner_name meta)])"
    using create_query_fails [OF assms, of t s e] by blast
next
  fix t s users j e
  assume "CreateTeam_answer meta (owner_name meta) nt = Inr t
            \<and> \<not> create_default_maintainer d \<and> t_Slug t = Some s
            \<and> Query_answer meta s (owner_name meta) = Inr users
            \<and> j < length users
            \<and> (\<forall>i<j. RemoveTeamMembershipBySlug_answer meta
                         (calls_of is_RemoveTeamMembershipBySlug w1 + i) (owner_name meta) s
                         (users ! i) = None)
            \<and> RemoveTeamMembershipBySlug_answer meta
                 (calls_of is_RemoveTeamMembershipBySlug w1 + j) (owner_name meta) s
                 (users ! j) = Some e"
  then show "resourceGithubTeamCreate meta d w =
              (Some e, d,
               w1 @ Call_CreateTeam (owner_name meta) nt # Call_Query s (owner_name meta)
                  # map (Call_RemoveTeamMembershipBySlug (owner_name meta) s)
                      (take (Suc j) users))"
    using create_removal_fails [OF assms, of t s users j e] by blast
next
  fix t e
  assume "CreateTeam_answer meta (owner_name meta) nt = Inr t
            \<and> create_default_maintainer d \<and> ldap_dn d \<noteq> ''''
            \<and> UpdateTeamLDAPMapping_answer meta (t_ID t) (ldap_dn d) = Some e"
  then show "resourceGithubTeamCreate meta d w =
              (Some e, d,
               w1 @ [Call_CreateTeam (owner_name meta) nt,
                     Call_UpdateTeamLDAPMapping (t_ID t) (ldap_dn d)])"
    using create_ldap_fails_maintainer_kept [OF assms, of t e] by blast
next
  fix t s users e
  assume "CreateTeam_answer meta (owner_name meta) nt = Inr t
            \<and> \<not> create_default_maintainer d \<and> t_Slug t = Some s
            \<and> Query_answer meta s (owner_name meta) = Inr users
            \<and> (\<forall>i<length users. RemoveTeamMembershipBySlug_answer meta
                         (calls_of is_RemoveTeamMembershipBySlug w1 + i) (owner_name meta) s
                         (users ! i) = None)
            \<and> ldap_dn d \<noteq> ''''
            \<and> UpdateTeamLDAPMapping_answer meta (t_ID t) (ldap_dn d) = Some e"
  then show "resourceGithubTeamCreate meta d w =
              (Some e, d,
               w1 @ Call_CreateTeam (owner_name meta) nt # Call_Query s (owner_name meta)
                  # map (Call_RemoveTeamMembershipBySlug (owner_name meta) s) users
                  @ [Call_UpdateTeamLDAPMapping (t_ID t) (ldap_dn d)])"
    using create_ldap_fails_maintainers_removed [OF assms, of t s users e] by blast
qed

text \<open>
  The theorem at six runs: the removal of the second of three members fails with status
  403; the LDAP mapping fails with status 422 after the one member has been removed, and
  with the default maintainer kept; the query for the members fails; the created team
  has no slug; the create call fails.
\<close>

theorem create_single_call_no_rollback_witness:
  "resourceGithubTeamCreate
     (someOwner\<lparr>Query_answer := (\<lambda>teamSlug login. Inr [''creator'', ''owner'', ''bot'']),
                RemoveTeamMembershipBySlug_answer :=
                  (\<lambda>k org teamSlug user. if k = 1 then Some (ErrorResponse 403) else None)\<rparr>)
     (someData\<lparr>resource_id := ''''\<rparr>) [] =
     (Some (ErrorResponse 403), someData\<lparr>resource_id := ''''\<rparr>,
      [Call_CreateTeam ''acme''
         \<lparr>nt_Name = ''core'', nt_Description = ''the core team'', nt_Privacy = ''closed'',
          nt_ParentTeamID = None\<rparr>,
       Call_Query ''core'' ''acme'',
       Call_RemoveTeamMembershipBySlug ''acme'' ''core'' ''creator'',
       Call_RemoveTeamMembershipBySlug ''acme'' ''core'' ''owner''])
   \<and> resourceGithubTeamCreate
     (someOwner\<lparr>UpdateTeamLDAPMapping_answer := (\<lambda>team dn. Some (ErrorResponse 422))\<rparr>)
     (someData\<lparr>resource_id := '''', ldap_dn := ''cn=core''\<rparr>) [] =
     (Some (ErrorResponse 422), someData\<lparr>resource_id := '''', ldap_dn := ''cn=core''\<rparr>,
      [Call_CreateTeam ''acme''
         \<lparr>nt_Name = ''core'', nt_Description = ''the core team'', nt_Privacy = ''closed'',
          nt_ParentTeamID = None\<rparr>,
       Call_Query ''core'' ''acme'',
       Call_RemoveTeamMembershipBySlug ''acme'' ''core'' ''creator'',
       Call_UpdateTeamLDAPMapping 42 ''cn=core''])
   \<and> resourceGithubTeamCreate
     (someOwner\<lparr>UpdateTeamLDAPMapping_answer := (\<lambda>team dn. Some (ErrorResponse 422))\<rparr>)
     (someData\<lparr>resource_id := '''', ldap_dn := ''cn=core'',
               create_default_maintainer := True\<rparr>) [] =
     (Some (ErrorResponse 422),
      someData\<lparr>resource_id := '''', ldap_dn := ''cn=core'', create_default_maintainer := True\<rparr>,
      [Call_CreateTeam ''acme''
         \<lparr>nt_Name = ''core'', nt_Description = ''the core team'', nt_Privacy = ''closed'',
          nt_ParentTeamID = None\<rparr>,
       Call_UpdateTeamLDAPMapping 42 ''cn=core''])
   \<and> resourceGithubTeamCreate
     (someOwner\<lparr>Query_answer := (\<lambda>teamSlug login. Inl (OtherError ''graphql''))\<rparr>)
     (someData\<lparr>resource_id := ''''\<rparr>) [] =
     (Some (OtherError ''graphql''), someData\<lparr>resource_id := ''''\<rparr>,
      [Call_CreateTeam ''acme''
         \<lparr>nt_Name = ''core'', nt_Description = ''the core team'', nt_Privacy = ''closed'',
          nt_ParentTeamID = None\<rparr>,
       Call_Query ''core'' ''acme''])
   \<and> resourceGithubTeamCreate
     (someOwner\<lparr>CreateTeam_answer := (\<lambda>org nt. Inr (someTeam\<lparr>t_Slug := None\<rparr>))\<rparr>)
     (someData\<lparr>resource_id := ''''\<rparr>) [] =
     (Some NilDereference, someData\<lparr>resource_id := ''''\<rparr>,
      [Call_CreateTeam ''acme''
         \<lparr>nt_Name = ''core'', nt_Description = ''the core team'', nt_Privacy = ''closed'',
          nt_ParentTeamID = None\<rparr>])
   \<and> resourceGithubTeamCreate
     (someOwner\<lparr>CreateTeam_answer := (\<lambda>org nt. Inl (ErrorResponse 422))\<rparr>)
     (someData\<lparr>resource_id := ''''\<rparr>) [] =
     (Some (ErrorResponse 422), someData\<lparr>resource_id := ''''\<rparr>,
      [Call_CreateTeam ''acme''
         \<lparr>nt_Name = ''core'', nt_Description = ''the core team'', nt_Privacy = ''closed'',
          nt_ParentTeamID = None\<rparr>])"
proof -
  let ?nt = "\<lparr>nt_Name = ''core'', nt_Description = ''the core team'', nt_Privacy = ''closed'',
              nt_ParentTeamID = None\<rparr>"
  note defs = someOwner_def someData_def someTeam_def teamOf_def createNewTeam_def
    calls_of_def less_Suc_eq
  let ?m1 = "someOwner\<lparr>Query_answer := (\<lambda>teamSlug login. Inr [''creator'', ''owner'', ''bot'']),
                RemoveTeamMembershipBySlug_answer :=
                  (\<lambda>k org teamSlug user. if k = 1 then Some (ErrorResponse 403) else None)\<rparr>"
  let ?m2 = "someOwner\<lparr>UpdateTeamLDAPMapping_answer := (\<lambda>team dn. Some (ErrorResponse 422))\<rparr>"
  let ?m4 = "someOwner\<lparr>Query_answer := (\<lambda>teamSlug login. Inl (OtherError ''graphql''))\<rparr>"
  let ?m5 = "someOwner\<lparr>CreateTeam_answer := (\<lambda>org nt. Inr (someTeam\<lparr>t_Slug := None\<rparr>))\<rparr>"
  let ?m6 = "someOwner\<lparr>CreateTeam_answer := (\<lambda>org nt. Inl (ErrorResponse 422))\<rparr>"
  let ?d = "someData\<lparr>resource_id := ''''\<rparr>"
  let ?d2 = "someData\<lparr>resource_id := '''', ldap_dn := ''cn=core''\<rparr>"
  let ?d3 = "someData\<lparr>resource_id := '''', ldap_dn := ''cn=core'',
               create_default_maintainer := True\<rparr>"
  have r1: "resourceGithubTeamCreate ?m1 ?d [] =
     (Some (ErrorResponse 403), ?d,
      [Call_CreateTeam ''acme'' ?nt, Call_Query ''core'' ''acme'',
       Call_RemoveTeamMembershipBySlug ''acme'' ''core'' ''creator'',
       Call_RemoveTeamMembershipBySlug ''acme'' ''core'' ''owner''])"
    using create_single_call_no_rollback [of ?m1 ?d "[]" ?nt "[]",
            THEN conjunct2, THEN conjunct2, THEN conjunct2, THEN conjunct2, THEN conjunct2,
            THEN conjunct1, rule_format,
            of someTeam "''core''" "[''creator'', ''owner'', ''bot'']" 1 "ErrorResponse 403"]
    by (simp add: defs)
  have r2: "resourceGithubTeamCreate ?m2 ?d2 [] =
     (Some (ErrorResponse 422), ?d2,
      [Call_CreateTeam ''acme'' ?nt, Call_Query ''core'' ''acme'',
       Call_RemoveTeamMembershipBySlug ''acme'' ''core'' ''creator'',
       Call_UpdateTeamLDAPMapping 42 ''cn=core''])"
    using create_single_call_no_rollback [of ?m2 ?d2 "[]" ?nt "[]",
            THEN conjunct2, THEN conjunct2, THEN conjunct2, THEN conjunct2, THEN conjunct2,
            THEN conjunct2, THEN conjunct2, rule_format,
            of someTeam "''core''" "[''creator'']" "ErrorResponse 422"]
    by (simp add: defs)
  have r3: "resourceGithubTeamCreate ?m2 ?d3 [] =
     (Some (ErrorResponse 422), ?d3,
      [Call_CreateTeam ''acme'' ?nt, Call_UpdateTeamLDAPMapping 42 ''cn=core''])"
    using create_single_call_no_rollback [of ?m2 ?d3 "[]" ?nt "[]",
            THEN conjunct2, THEN conjunct2, THEN conjunct2, THEN conjunct2, THEN conjunct2,
            THEN conjunct2, THEN conjunct1, rule_format, of someTeam "ErrorResponse 422"]
    by (simp add: defs)
  have r4: "resourceGithubTeamCreate ?m4 ?d [] =
     (Some (OtherError ''graphql''), ?d,
      [Call_CreateTeam ''acme'' ?nt, Call_Query ''core'' ''acme''])"
    using create_single_call_no_rollback [of ?m4 ?d "[]" ?nt "[]",
            THEN conjunct2, THEN conjunct2, THEN conjunct2, THEN conjunct2, THEN conjunct1,
            rule_format, of someTeam "''core''" "OtherError ''graphql''"]
    by (simp add: defs)
  have r5: "resourceGithubTeamCreate ?m5 ?d [] =
     (Some NilDereference, ?d, [Call_CreateTeam ''acme'' ?nt])"
    using create_single_call_no_rollback [of ?m5 ?d "[]" ?nt "[]",
            THEN conjunct2, THEN conjunct2, THEN conjunct2, THEN conjunct1, rule_format,
            of "someTeam\<lparr>t_Slug := None\<rparr>"]
    by (simp add: defs)
  have r6: "resourceGithubTeamCreate ?m6 ?d [] =
     (Some (ErrorResponse 422), ?d, [Call_CreateTeam ''acme'' ?nt])"
    using create_single_call_no_rollback [of ?m6 ?d "[]" ?nt "[]",
            THEN conjunct2, THEN conjunct2, THEN conjunct1, rule_format, of "ErrorResponse 422"]
    by (simp add: defs)
  from r1 r2 r3 r4 r5 r6 show ?thesis by simp
qed

subsection \<open>Update\<close>

text \<open>Update, unfolded along the answers of its calls.\<close>

lemma updateEditedTeam_eq: "updateEditedTeam meta d w = createNewTeam meta d w"
  by (simp add: updateParentTeamId_def createParentTeamId_def updateParentLoop_eq
        updateEditedTeam_def createNewTeam_def Let_def)

lemma updateEditedTeam_grows:
  "grows w (snd (updateEditedTeam meta d w)) parentEvent
     (Suc github_team_api_retry) github_team_api_retry"
  by (simp add: updateEditedTeam_eq createNewTeam_grows)

lemma update_org_fails:
  assumes "checkOrganization meta = Some e"
  shows "resourceGithubTeamUpdate meta d w = (Some e, d, w)"
  using assms by (simp add: resourceGithubTeamUpdate_def)

lemma update_parent_fails:
  assumes "checkOrganization meta = None" and "updateEditedTeam meta d w = (Inl e, w1)"
  shows "resourceGithubTeamUpdate meta d w = (Some e, d, w1)"
  using assms by (simp add: resourceGithubTeamUpdate_def Let_def)

lemma update_unparseable:
  assumes "checkOrganization meta = None" and "updateEditedTeam meta d w = (Inr nt, w1)"
      and "ParseInt (resource_id d) = Inl perr"
  shows "resourceGithubTeamUpdate meta d w =
           (Some (UnconvertibleIdErr (resource_id d) perr), d, w1)"
  using assms by (simp add: resourceGithubTeamUpdate_def Let_def)

lemma update_edit_fails:
  assumes "checkOrganization meta = None" and "updateEditedTeam meta d w = (Inr nt, w1)"
      and "ParseInt (resource_id d) = Inr i"
      and "EditTeamByID_answer meta (idContext d) (owner_id meta) i nt = Inl e"
  shows "resourceGithubTeamUpdate meta d w =
           (Some e, d, w1 @ [Call_EditTeamByID (idContext d) (owner_id meta) i nt])"
  using assms by (simp add: resourceGithubTeamUpdate_def EditTeamByID_def Let_def)

lemma update_unfold:
  assumes "checkOrganization meta = None" and "updateEditedTeam meta d w = (Inr nt, w1)"
      and "ParseInt (resource_id d) = Inr i"
      and "EditTeamByID_answer meta (idContext d) (owner_id meta) i nt = Inr t"
  shows "resourceGithubTeamUpdate meta d w =
     (case updateLdapMapping meta d t
             (w1 @ [Call_EditTeamByID (idContext d) (owner_id meta) i nt]) of
        (lerr, w3) \<Rightarrow>
          (case lerr of
             Some e \<Rightarrow> (Some e, d, w3)
           | None \<Rightarrow>
               resourceGithubTeamRead meta (d\<lparr>resource_id := FormatInt (t_ID t)\<rparr>) w3))"
  using assms
  by (auto simp: resourceGithubTeamUpdate_def EditTeamByID_def Let_def
        split: prod.splits option.splits)

text \<open>The log of update after a successful edit call: at most one LDAP call, then the read.\<close>

lemma update_tail:
  assumes "checkOrganization meta = None" and "updateEditedTeam meta d w = (Inr nt, w1)"
      and "ParseInt (resource_id d) = Inr i"
      and "EditTeamByID_answer meta (idContext d) (owner_id meta) i nt = Inr t"
  shows "\<exists>w3. snd (updateLdapMapping meta d t
                  (w1 @ [Call_EditTeamByID (idContext d) (owner_id meta) i nt])) = w3
          \<and> grows w3 (snd (snd (resourceGithubTeamUpdate meta d w))) readEvent
               (Suc github_team_api_retry) github_team_api_retry"
proof -
  let ?w2 = "w1 @ [Call_EditTeamByID (idContext d) (owner_id meta) i nt]"
  obtain lerr w3 where l: "updateLdapMapping meta d t ?w2 = (lerr, w3)"
    by (cases "updateLdapMapping meta d t ?w2")
  have "grows w3 (snd (snd (resourceGithubTeamUpdate meta d w))) readEvent
               (Suc github_team_api_retry) github_team_api_retry"
  proof (cases lerr)
    case (Some e)
    then have "snd (snd (resourceGithubTeamUpdate meta d w)) = w3"
      by (simp add: update_unfold [OF assms] l)
    then show ?thesis using grows_weaken [OF grows_refl [of w3 readEvent]] by simp
  next
    case None
    then have "snd (snd (resourceGithubTeamUpdate meta d w)) =
                 snd (snd (resourceGithubTeamRead meta (d\<lparr>resource_id := FormatInt (t_ID t)\<rparr>) w3))"
      by (simp add: update_unfold [OF assms] l)
    then show ?thesis
      using read_grows [of w3 meta "d\<lparr>resource_id := FormatInt (t_ID t)\<rparr>"] by simp
  qed
  with l show ?thesis by simp
qed

lemma updateLdapMapping_log:
  "snd (updateLdapMapping meta d t w) =
     (if HasChange_ldap_dn d then w @ [Call_UpdateTeamLDAPMapping (t_ID t) (ldap_dn d)] else w)"
  by (simp add: updateLdapMapping_def UpdateTeamLDAPMapping_def)

lemma update_edit_succeeds_counts:
  assumes "checkOrganization meta = None" and "updateEditedTeam meta d w = (Inr nt, w1)"
      and "ParseInt (resource_id d) = Inr i"
      and "EditTeamByID_answer meta (idContext d) (owner_id meta) i nt = Inr t"
  shows "calls_of is_UpdateTeamLDAPMapping (snd (snd (resourceGithubTeamUpdate meta d w))) =
           calls_of is_UpdateTeamLDAPMapping w + (if HasChange_ldap_dn d then 1 else 0)"
    and "calls_of is_EditTeamByID (snd (snd (resourceGithubTeamUpdate meta d w))) =
           Suc (calls_of is_EditTeamByID w)"
proof -
  let ?w2 = "w1 @ [Call_EditTeamByID (idContext d) (owner_id meta) i nt]"
  let ?w3 = "snd (updateLdapMapping meta d t ?w2)"
  let ?w' = "snd (snd (resourceGithubTeamUpdate meta d w))"
  have g1: "grows w w1 parentEvent (Suc github_team_api_retry) github_team_api_retry"
    using updateEditedTeam_grows [of w meta d] assms(2) by simp
  from update_tail [OF assms]
  have g3: "grows ?w3 ?w' readEvent (Suc github_team_api_retry) github_team_api_retry"
    by simp
  have "calls_of is_UpdateTeamLDAPMapping ?w' = calls_of is_UpdateTeamLDAPMapping ?w3"
    by (rule grows_calls_of_same [OF g3]) (rule readEvent_not)
  also have "\<dots> = calls_of is_UpdateTeamLDAPMapping w1 + (if HasChange_ldap_dn d then 1 else 0)"
    by (simp add: updateLdapMapping_log calls_of_append calls_of_Cons calls_of_Nil)
  also have "calls_of is_UpdateTeamLDAPMapping w1 = calls_of is_UpdateTeamLDAPMapping w"
    by (rule grows_calls_of_same [OF g1]) (rule parentEvent_not)
  finally show "calls_of is_UpdateTeamLDAPMapping ?w' =
           calls_of is_UpdateTeamLDAPMapping w + (if HasChange_ldap_dn d then 1 else 0)" .
  have "calls_of is_EditTeamByID ?w' = calls_of is_EditTeamByID ?w3"
    by (rule grows_calls_of_same [OF g3]) (rule readEvent_not)
  also have "\<dots> = Suc (calls_of is_EditTeamByID w1)"
    by (simp add: updateLdapMapping_log calls_of_append calls_of_Cons calls_of_Nil)
  also have "calls_of is_EditTeamByID w1 = calls_of is_EditTeamByID w"
    by (rule grows_calls_of_same [OF g1]) (rule parentEvent_not)
  finally show "calls_of is_EditTeamByID ?w' = Suc (calls_of is_EditTeamByID w)" .
qed

lemma update_edit_fails_counts:
  assumes "checkOrganization meta = None" and "updateEditedTeam meta d w = (Inr nt, w1)"
      and "ParseInt (resource_id d) = Inr i"
      and "EditTeamByID_answer meta (idContext d) (owner_id meta) i nt = Inl e"
  shows "calls_of is_UpdateTeamLDAPMapping (snd (snd (resourceGithubTeamUpdate meta d w))) =
           calls_of is_UpdateTeamLDAPMapping w"
    and "calls_of is_EditTeamByID (snd (snd (resourceGithubTeamUpdate meta d w))) =
           Suc (calls_of is_EditTeamByID w)"
proof -
  have g1: "grows w w1 parentEvent (Suc github_team_api_retry) github_team_api_retry"
    using updateEditedTeam_grows [of w meta d] assms(2) by simp
  show "calls_of is_UpdateTeamLDAPMapping (snd (snd (resourceGithubTeamUpdate meta d w))) =
           calls_of is_UpdateTeamLDAPMapping w"
    using grows_calls_of_same [OF g1, of is_UpdateTeamLDAPMapping]
    by (simp add: update_edit_fails [OF assms] parentEvent_not calls_of_append calls_of_Cons
          calls_of_Nil)
  show "calls_of is_EditTeamByID (snd (snd (resourceGithubTeamUpdate meta d w))) =
           Suc (calls_of is_EditTeamByID w)"
    using grows_calls_of_same [OF g1, of is_EditTeamByID]
    by (simp add: update_edit_fails [OF assms] parentEvent_not calls_of_append calls_of_Cons
          calls_of_Nil)
qed

text \<open>In every run of update: no LDAP call unless \<^verbatim>\<open>ldap_dn\<close> changed, and at most one edit call.\<close>

lemma update_counts_any_run:
  "calls_of is_UpdateTeamLDAPMapping (snd (snd (resourceGithubTeamUpdate meta d w))) \<le>
     calls_of is_UpdateTeamLDAPMapping w + (if HasChange_ldap_dn d then 1 else 0)
   \<and> calls_of is_UpdateTeamLDAPMapping w \<le>
     calls_of is_UpdateTeamLDAPMapping (snd (snd (resourceGithubTeamUpdate meta d w)))
   \<and> calls_of is_EditTeamByID (snd (snd (resourceGithubTeamUpdate meta d w))) \<le>
     Suc (calls_of is_EditTeamByID w)"
proof (cases "checkOrganization meta")
  case (Some e)
  then show ?thesis by (simp add: update_org_fails)
next
  case None
  note org = this
  obtain r w1 where u: "updateEditedTeam meta d w = (r, w1)"
    by (cases "updateEditedTeam meta d w")
  have g1: "grows w w1 parentEvent (Suc github_team_api_retry) github_team_api_retry"
    using updateEditedTeam_grows [of w meta d] u by simp
  note same = grows_calls_of_same [OF g1, of is_UpdateTeamLDAPMapping]
              grows_calls_of_same [OF g1, of is_EditTeamByID]
  show ?thesis
  proof (cases r)
    case (Inl e)
    then show ?thesis
      using same by (simp add: update_parent_fails [OF org u [unfolded Inl]] parentEvent_not)
  next
    case (Inr nt)
    note u' = u [unfolded Inr]
    show ?thesis
    proof (cases "ParseInt (resource_id d)")
      case (Inl perr)
      then show ?thesis
        using same by (simp add: update_unparseable [OF org u' Inl] parentEvent_not)
    next
      case (Inr i)
      note i = this
      show ?thesis
      proof (cases "EditTeamByID_answer meta (idContext d) (owner_id meta) i nt")
        case (Inl e)
        then show ?thesis using update_edit_fails_counts [OF org u' i Inl] by simp
      next
        case (Inr t)
        then show ?thesis using update_edit_succeeds_counts [OF org u' i Inr] by simp
      qed
    qed
  qed
qed

text \<open>
  Claim C8. Update issues the LDAP-mapping call only when \<^verbatim>\<open>ldap_dn\<close> changed: in every
  run with \<^verbatim>\<open>ldap_dn\<close> unchanged, whatever its value, the log gains no LDAP-mapping call. No
  run issues more than one edit call. Once the team to send is built and the identifier
  parsed, exactly one edit call is issued: when it fails its error is returned after
  that single call, and when it succeeds the log gains one LDAP-mapping call if
  \<^verbatim>\<open>ldap_dn\<close> changed and none otherwise.
\<close>

theorem update_ldap_only_on_change:
  "(\<not> HasChange_ldap_dn d \<longrightarrow>
      calls_of is_UpdateTeamLDAPMapping (snd (snd (resourceGithubTeamUpdate meta d w))) =
        calls_of is_UpdateTeamLDAPMapping w)
   \<and> calls_of is_EditTeamByID (snd (snd (resourceGithubTeamUpdate meta d w))) \<le>
        Suc (calls_of is_EditTeamByID w)
   \<and> (checkOrganization meta = None \<and> updateEditedTeam meta d w = (Inr nt, w1)
        \<and> ParseInt (resource_id d) = Inr i \<longrightarrow>
        calls_of is_EditTeamByID (snd (snd (resourceGithubTeamUpdate meta d w))) =
          Suc (calls_of is_EditTeamByID w)
        \<and> (\<forall>e. EditTeamByID_answer meta (idContext d) (owner_id meta) i nt = Inl e \<longrightarrow>
              resourceGithubTeamUpdate meta d w =
                (Some e, d, w1 @ [Call_EditTeamByID (idContext d) (owner_id meta) i nt]))
        \<and> (\<forall>t. EditTeamByID_answer meta (idContext d) (owner_id meta) i nt = Inr t \<longrightarrow>
              calls_of is_UpdateTeamLDAPMapping (snd (snd (resourceGithubTeamUpdate meta d w))) =
                calls_of is_UpdateTeamLDAPMapping w + (if HasChange_ldap_dn d then 1 else 0)))"
proof (intro conjI impI allI)
  assume "\<not> HasChange_ldap_dn d"
  then show "calls_of is_UpdateTeamLDAPMapping (snd (snd (resourceGithubTeamUpdate meta d w))) =
        calls_of is_UpdateTeamLDAPMapping w"
    using update_counts_any_run [of meta d w] by simp
next
  show "calls_of is_EditTeamByID (snd (snd (resourceGithubTeamUpdate meta d w))) \<le>
        Suc (calls_of is_EditTeamByID w)"
    using update_counts_any_run [of meta d w] by simp
next
  assume a: "checkOrganization meta = None \<and> updateEditedTeam meta d w = (Inr nt, w1)
        \<and> ParseInt (resource_id d) = Inr i"
  show "calls_of is_EditTeamByID (snd (snd (resourceGithubTeamUpdate meta d w))) =
          Suc (calls_of is_EditTeamByID w)"
    using a update_edit_fails_counts(2) [of meta d w nt w1 i]
          update_edit_succeeds_counts(2) [of meta d w nt w1 i]
    by (cases "EditTeamByID_answer meta (idContext d) (owner_id meta) i nt") simp_all
next
  fix e
  assume "checkOrganization meta = None \<and> updateEditedTeam meta d w = (Inr nt, w1)
        \<and> ParseInt (resource_id d) = Inr i"
    and "EditTeamByID_answer meta (idContext d) (owner_id meta) i nt = Inl e"
  then show "resourceGithubTeamUpdate meta d w =
                (Some e, d, w1 @ [Call_EditTeamByID (idContext d) (owner_id meta) i nt])"
    using update_edit_fails [of meta d w nt w1 i e] by simp
next
  fix t
  assume "checkOrganization meta = None \<and> updateEditedTeam meta d w = (Inr nt, w1)
        \<and> ParseInt (resource_id d) = Inr i"
    and "EditTeamByID_answer meta (idContext d) (owner_id meta) i nt = Inr t"
  then show "calls_of is_UpdateTeamLDAPMapping (snd (snd (resourceGithubTeamUpdate meta d w))) =
                calls_of is_UpdateTeamLDAPMapping w + (if HasChange_ldap_dn d then 1 else 0)"
    using update_edit_succeeds_counts(1) [of meta d w nt w1 i t] by simp
qed

text \<open>
  The theorem at three runs: \<^verbatim>\<open>ldap_dn\<close> set and unchanged (no LDAP call); changed (one
  LDAP call, one edit call); the edit call fails.
\<close>

theorem update_ldap_only_on_change_witness:
  "calls_of is_UpdateTeamLDAPMapping
     (snd (snd (resourceGithubTeamUpdate someOwner
        (someData\<lparr>ldap_dn := ''cn=core'', ldap_dn_prior := ''cn=core''\<rparr>) []))) = 0
   \<and> calls_of is_UpdateTeamLDAPMapping
     (snd (snd (resourceGithubTeamUpdate someOwner
        (someData\<lparr>ldap_dn := ''cn=new'', ldap_dn_prior := ''cn=old''\<rparr>) []))) = 1
   \<and> calls_of is_EditTeamByID
     (snd (snd (resourceGithubTeamUpdate someOwner
        (someData\<lparr>ldap_dn := ''cn=new'', ldap_dn_prior := ''cn=old''\<rparr>) []))) = 1
   \<and> resourceGithubTeamUpdate
        (someOwner\<lparr>EditTeamByID_answer := (\<lambda>ctx orgId i nt. Inl (ErrorResponse 403))\<rparr>)
        someData [] =
      (Some (ErrorResponse 403), someData,
       [Call_EditTeamByID \<lparr>ctxId = Some ''42'', ctxEtag = None\<rparr> 1 42
          \<lparr>nt_Name = ''core'', nt_Description = ''the core team'', nt_Privacy = ''closed'',
           nt_ParentTeamID = None\<rparr>])"
  using update_ldap_only_on_change
          [of "someData\<lparr>ldap_dn := ''cn=core'', ldap_dn_prior := ''cn=core''\<rparr>" someOwner "[]"
              "teamOf (someData\<lparr>ldap_dn := ''cn=core'', ldap_dn_prior := ''cn=core''\<rparr>)" "[]" 42]
        update_ldap_only_on_change
          [of "someData\<lparr>ldap_dn := ''cn=new'', ldap_dn_prior := ''cn=old''\<rparr>" someOwner "[]"
              "teamOf (someData\<lparr>ldap_dn := ''cn=new'', ldap_dn_prior := ''cn=old''\<rparr>)" "[]" 42]
        update_ldap_only_on_change
          [of someData
              "someOwner\<lparr>EditTeamByID_answer := (\<lambda>ctx orgId i nt. Inl (ErrorResponse 403))\<rparr>"
              "[]" "teamOf someData" "[]" 42]
  by (simp add: someOwner_def someData_def teamOf_def updateEditedTeam_def HasChange_ldap_dn_def
        ParseInt_42 calls_of_def idContext_def Let_def)

subsection \<open>An identifier that does not parse\<close>

lemma ParseInt_abc: "ParseInt ''abc'' = Inl ErrSyntax"
  by (simp add: ParseInt_def ParseUint_def isDigit_def)

lemma read_unparseable:
  assumes "checkOrganization meta = None" and "ParseInt (resource_id d) = Inl perr"
  shows "resourceGithubTeamRead meta d w =
           (Some (UnconvertibleIdErr (resource_id d) perr), d, w)"
  using assms by (simp add: resourceGithubTeamRead_def)

lemma delete_unparseable:
  assumes "checkOrganization meta = None" and "ParseInt (resource_id d) = Inl perr"
  shows "resourceGithubTeamDelete meta d w =
           (Some (UnconvertibleIdErr (resource_id d) perr), d, w)"
  using assms by (simp add: resourceGithubTeamDelete_def)

lemma update_unparseable_counts:
  assumes "checkOrganization meta = None" and "ParseInt (resource_id d) = Inl perr"
  shows "calls_of is_EditTeamByID (snd (snd (resourceGithubTeamUpdate meta d w))) =
           calls_of is_EditTeamByID w"
proof -
  obtain r w1 where u: "updateEditedTeam meta d w = (r, w1)"
    by (cases "updateEditedTeam meta d w")
  have g1: "grows w w1 parentEvent (Suc github_team_api_retry) github_team_api_retry"
    using updateEditedTeam_grows [of w meta d] u by simp
  have "snd (snd (resourceGithubTeamUpdate meta d w)) = w1"
    using update_parent_fails [OF assms(1), of d w _ w1]
          update_unparseable [OF assms(1) _ assms(2), of w _ w1] u
    by (cases r) simp_all
  then show ?thesis using grows_calls_of_same [OF g1, of is_EditTeamByID]
    by (simp add: parentEvent_not)
qed

text \<open>
  Claim C10, as amended. Let the organization check pass and the stored identifier not
  parse as a decimal 64-bit integer. Read and delete return the unconvertible-id error at
  once: the log and the resource data are unchanged. Update returns it at once when no
  parent is set; with a parent set it first resolves the parent (lookups and sleeps), and
  then returns the unconvertible-id error if the resolution succeeded and the error of
  the lookup if it failed. Update never issues the edit call and never changes the
  resource data.
\<close>

theorem unparseable_id_rejected:
  assumes "checkOrganization meta = None" and "ParseInt (resource_id d) = Inl perr"
  shows "resourceGithubTeamRead meta d w =
           (Some (UnconvertibleIdErr (resource_id d) perr), d, w)
       \<and> resourceGithubTeamDelete meta d w =
           (Some (UnconvertibleIdErr (resource_id d) perr), d, w)
       \<and> (parent_team_id d = '''' \<longrightarrow>
            resourceGithubTeamUpdate meta d w =
              (Some (UnconvertibleIdErr (resource_id d) perr), d, w))
       \<and> (\<forall>nt w1. updateEditedTeam meta d w = (Inr nt, w1) \<longrightarrow>
            resourceGithubTeamUpdate meta d w =
              (Some (UnconvertibleIdErr (resource_id d) perr), d, w1))
       \<and> (\<forall>e w1. updateEditedTeam meta d w = (Inl e, w1) \<longrightarrow>
            resourceGithubTeamUpdate meta d w = (Some e, d, w1))
       \<and> calls_of is_EditTeamByID (snd (snd (resourceGithubTeamUpdate meta d w))) =
           calls_of is_EditTeamByID w"
proof (intro conjI impI allI)
  show "resourceGithubTeamRead meta d w =
           (Some (UnconvertibleIdErr (resource_id d) perr), d, w)"
    by (rule read_unparseable [OF assms])
  show "resourceGithubTeamDelete meta d w =
           (Some (UnconvertibleIdErr (resource_id d) perr), d, w)"
    by (rule delete_unparseable [OF assms])
  show "calls_of is_EditTeamByID (snd (snd (resourceGithubTeamUpdate meta d w))) =
           calls_of is_EditTeamByID w"
    by (rule update_unparseable_counts [OF assms])
next
  assume "parent_team_id d = ''''"
  then have "updateEditedTeam meta d w = (Inr (teamOf d), w)"
    by (simp add: updateEditedTeam_def)
  from update_unparseable [OF assms(1) this assms(2)]
  show "resourceGithubTeamUpdate meta d w =
          (Some (UnconvertibleIdErr (resource_id d) perr), d, w)" .
next
  fix nt w1
  assume "updateEditedTeam meta d w = (Inr nt, w1)"
  from update_unparseable [OF assms(1) this assms(2)]
  show "resourceGithubTeamUpdate meta d w =
          (Some (UnconvertibleIdErr (resource_id d) perr), d, w1)" .
next
  fix e w1
  assume "updateEditedTeam meta d w = (Inl e, w1)"
  from update_parent_fails [OF assms(1) this]
  show "resourceGithubTeamUpdate meta d w = (Some e, d, w1)" .
qed

text \<open>
  The theorem at the identifier \<^verbatim>\<open>abc\<close>: read, delete and update without a parent, and
  update with a parent that the first lookup finds.
\<close>

theorem unparseable_id_rejected_witness:
  "resourceGithubTeamRead someOwner (someData\<lparr>resource_id := ''abc''\<rparr>) [] =
     (Some (UnconvertibleIdErr ''abc'' ErrSyntax), someData\<lparr>resource_id := ''abc''\<rparr>, [])
   \<and> resourceGithubTeamDelete someOwner (someData\<lparr>resource_id := ''abc''\<rparr>) [] =
     (Some (UnconvertibleIdErr ''abc'' ErrSyntax), someData\<lparr>resource_id := ''abc''\<rparr>, [])
   \<and> resourceGithubTeamUpdate someOwner (someData\<lparr>resource_id := ''abc''\<rparr>) [] =
     (Some (UnconvertibleIdErr ''abc'' ErrSyntax), someData\<lparr>resource_id := ''abc''\<rparr>, [])
   \<and> resourceGithubTeamUpdate someOwner
       (someData\<lparr>resource_id := ''abc'', parent_team_id := ''parents''\<rparr>) [] =
     (Some (UnconvertibleIdErr ''abc'' ErrSyntax),
      someData\<lparr>resource_id := ''abc'', parent_team_id := ''parents''\<rparr>,
      [Call_getTeamID ''parents''])"
  using unparseable_id_rejected [of someOwner "someData\<lparr>resource_id := ''abc''\<rparr>" ErrSyntax "[]"]
        unparseable_id_rejected
          [of someOwner "someData\<lparr>resource_id := ''abc'', parent_team_id := ''parents''\<rparr>"
              ErrSyntax "[]"]
        createParentTeamId_found [of 0 someOwner "[]" "''parents''" 7]
  by (simp add: someOwner_def someData_def ParseInt_abc updateEditedTeam_eq createNewTeam_def
        lookupAnswer_def teamOf_def retries_0 Let_def)

text \<open>
  Claim C10 as stated fails for update: with the identifier \<^verbatim>\<open>abc\<close> and a parent whose
  lookup always fails, update returns the error of the lookup, not an unconvertible-id
  error, after eleven lookups and ten sleeps of five seconds.
\<close>

theorem update_looks_up_parent_before_parsing_id:
  "ParseInt (resource_id (someData\<lparr>resource_id := ''abc'', parent_team_id := ''ghosts''\<rparr>)) =
     Inl ErrSyntax
   \<and> resourceGithubTeamUpdate (lookupScriptOwner (\<lambda>k. Inl (OtherError ''no such team'')))
       (someData\<lparr>resource_id := ''abc'', parent_team_id := ''ghosts''\<rparr>) [] =
     (Some (OtherError ''no such team''),
      someData\<lparr>resource_id := ''abc'', parent_team_id := ''ghosts''\<rparr>,
      Call_getTeamID ''ghosts'' # retries 10 (Call_getTeamID ''ghosts''))
   \<and> remote_calls (Call_getTeamID ''ghosts'' # retries 10 (Call_getTeamID ''ghosts'')) = 11
   \<and> calls_of is_Sleep (Call_getTeamID ''ghosts'' # retries 10 (Call_getTeamID ''ghosts'')) = 10"
proof -
  let ?meta = "lookupScriptOwner (\<lambda>k. Inl (OtherError ''no such team''))"
  let ?d = "someData\<lparr>resource_id := ''abc'', parent_team_id := ''ghosts''\<rparr>"
  have org: "checkOrganization ?meta = None"
    by (simp add: lookupScriptOwner_def someOwner_def)
  have "\<forall>j<github_team_api_retry. isl (lookupAnswer ?meta [] ''ghosts'' j)"
    by (simp add: lookupAnswer_def lookupScriptOwner_def)
  from createParentTeamId_exhausted [OF this]
  have "updateEditedTeam ?meta ?d [] =
          (Inl (OtherError ''no such team''),
           Call_getTeamID ''ghosts'' # retries 10 (Call_getTeamID ''ghosts''))"
    by (simp add: updateEditedTeam_eq createNewTeam_def someData_def lookupAnswer_def
          lookupScriptOwner_def github_team_api_retry_def)
  from update_parent_fails [OF org this]
  show ?thesis
    by (simp add: ParseInt_abc remote_calls_def calls_of_def retries_def
          github_team_api_wait_def eval_nat_numeral)
qed

subsection \<open>How many calls and sleeps an operation makes\<close>

text \<open>Every sleep of read, update and create has the fixed length; their calls are bounded.\<close>

lemma fixedSleep_intros:
  "parentEvent c \<Longrightarrow> fixedSleep c"
  "tailEvent c \<Longrightarrow> fixedSleep c"
  "readEvent c \<Longrightarrow> fixedSleep c"
  "is_UpdateTeamLDAPMapping c \<Longrightarrow> fixedSleep c"
  by (cases c; auto simp: fixedSleep_def parentEvent_def tailEvent_def maintainerEvent_def
        readEvent_def)+

lemma grows_one_call:
  assumes "\<not> is_Sleep c"
  shows "grows w (w @ [c]) fixedSleep 1 0"
  using assms by (intro grows_call) (cases c; simp add: fixedSleep_def)+

lemma read_bounded:
  "grows w (snd (snd (resourceGithubTeamRead meta d w))) fixedSleep
     (Suc github_team_api_retry) github_team_api_retry"
  by (rule grows_weaken [OF read_grows]) (simp_all add: fixedSleep_intros)

lemma update_bounded:
  "grows w (snd (snd (resourceGithubTeamUpdate meta d w))) fixedSleep
     (2 * Suc github_team_api_retry + 2) (2 * github_team_api_retry)"
proof (cases "checkOrganization meta")
  case (Some e)
  then show ?thesis
    using grows_weaken [OF grows_refl [of w fixedSleep]] by (simp add: update_org_fails)
next
  case None
  note org = this
  obtain r w1 where u: "updateEditedTeam meta d w = (r, w1)"
    by (cases "updateEditedTeam meta d w")
  have g1: "grows w w1 fixedSleep (Suc github_team_api_retry) github_team_api_retry"
    using grows_weaken [OF updateEditedTeam_grows [of w meta d], of fixedSleep
                          "Suc github_team_api_retry" github_team_api_retry] u
    by (simp add: fixedSleep_intros)
  show ?thesis
  proof (cases r)
    case (Inl e)
    then show ?thesis
      using grows_weaken [OF g1] by (simp add: update_parent_fails [OF org u [unfolded Inl]])
  next
    case (Inr nt)
    note u' = u [unfolded Inr]
    show ?thesis
    proof (cases "ParseInt (resource_id d)")
      case (Inl perr)
      then show ?thesis
        using grows_weaken [OF g1] by (simp add: update_unparseable [OF org u' Inl])
    next
      case (Inr i)
      note i = this
      let ?w2 = "w1 @ [Call_EditTeamByID (idContext d) (owner_id meta) i nt]"
      have g2: "grows w1 ?w2 fixedSleep 1 0" by (rule grows_one_call) simp
      show ?thesis
      proof (cases "EditTeamByID_answer meta (idContext d) (owner_id meta) i nt")
        case (Inl e)
        then show ?thesis
          using grows_weaken [OF grows_trans [OF g1 g2]]
          by (simp add: update_edit_fails [OF org u' i Inl])
      next
        case (Inr t)
        let ?w3 = "snd (updateLdapMapping meta d t ?w2)"
        have g3: "grows ?w2 ?w3 fixedSleep 1 0"
          by (rule grows_weaken [OF updateLdapMapping_grows]) (simp_all add: fixedSleep_intros)
        have g4: "grows ?w3 (snd (snd (resourceGithubTeamUpdate meta d w))) fixedSleep
                    (Suc github_team_api_retry) github_team_api_retry"
        proof -
          from update_tail [OF org u' i Inr]
          have "grows ?w3 (snd (snd (resourceGithubTeamUpdate meta d w))) readEvent
                  (Suc github_team_api_retry) github_team_api_retry"
            by simp
          then show ?thesis by (rule grows_weaken) (simp_all add: fixedSleep_intros)
        qed
        show ?thesis
          by (rule grows_weaken [OF grows_trans [OF grows_trans [OF grows_trans [OF g1 g2] g3] g4]])
             simp_all
      qed
    qed
  qed
qed

lemma create_bounded:
  assumes "\<And>teamSlug. length (queryNodes meta teamSlug) \<le> m"
  shows "grows w (snd (snd (resourceGithubTeamCreate meta d w))) fixedSleep
           (2 * Suc github_team_api_retry + 3 + m) (2 * github_team_api_retry)"
proof (cases "checkOrganization meta")
  case (Some e)
  then show ?thesis
    using grows_weaken [OF grows_refl [of w fixedSleep]]
    by (simp add: resourceGithubTeamCreate_def)
next
  case None
  note org = this
  obtain r w1 where u: "createNewTeam meta d w = (r, w1)"
    by (cases "createNewTeam meta d w")
  have g1: "grows w w1 fixedSleep (Suc github_team_api_retry) github_team_api_retry"
    using grows_weaken [OF createNewTeam_grows [of w meta d], of fixedSleep
                          "Suc github_team_api_retry" github_team_api_retry] u
    by (simp add: fixedSleep_intros)
  show ?thesis
  proof (cases r)
    case (Inl e)
    then show ?thesis
      using grows_weaken [OF g1] by (simp add: create_parent_fails [OF org u [unfolded Inl]])
  next
    case (Inr nt)
    note u' = u [unfolded Inr]
    let ?w2 = "w1 @ [Call_CreateTeam (owner_name meta) nt]"
    let ?s = "case CreateTeam_answer meta (owner_name meta) nt of
                Inr t \<Rightarrow> (case t_Slug t of Some s \<Rightarrow> s | None \<Rightarrow> [])
              | Inl _ \<Rightarrow> []"
    have g2: "grows w1 ?w2 fixedSleep 1 0" by (rule grows_one_call) simp
    have g3: "grows ?w2 (snd (snd (resourceGithubTeamCreate meta d w))) fixedSleep
                (Suc m + 1 + Suc github_team_api_retry) github_team_api_retry"
      by (rule grows_weaken [OF create_tail_grows [OF org u']])
         (use assms [of ?s] in \<open>simp_all add: fixedSleep_intros\<close>)
    show ?thesis
      by (rule grows_weaken [OF grows_trans [OF grows_trans [OF g1 g2] g3]]) simp_all
  qed
qed

text \<open>
  Create removes every member the query reports, one call each: with all removals
  succeeding, a create without parent and without LDAP mapping makes the create call, the
  query, one removal per member and one fetch.
\<close>

lemma removeMembers_all_removed:
  assumes "\<And>k user. RemoveTeamMembershipBySlug_answer meta k (owner_name meta) teamSlug user = None"
  shows "removeMembers meta teamSlug users w =
           (None, w @ map (Call_RemoveTeamMembershipBySlug (owner_name meta) teamSlug) users)"
  by (induction users arbitrary: w) (simp_all add: RemoveTeamMembershipBySlug_def assms)

lemma FormatInt_42: "FormatInt 42 = ''42''"
  by (simp add: FormatInt_def decimalDigits.simps)

lemma remote_calls_map_remove:
  "remote_calls (map (Call_RemoveTeamMembershipBySlug org teamSlug) users) = length users"
  by (induction users) (simp_all add: remote_calls_def)

lemma create_calls_one_per_member:
  "remote_calls (snd (snd (resourceGithubTeamCreate (membersOwner users) someData []))) =
     length users + 3"
proof -
  let ?meta = "membersOwner users"
  let ?w4 = "Call_CreateTeam ''acme'' (teamOf someData) # Call_Query ''core'' ''acme''
               # map (Call_RemoveTeamMembershipBySlug ''acme'' ''core'') users"
  have org: "checkOrganization ?meta = None" by (simp add: membersOwner_def someOwner_def)
  have nt: "createNewTeam ?meta someData [] = (Inr (teamOf someData), [])"
    by (simp add: createNewTeam_def someData_def)
  have ct: "CreateTeam_answer ?meta (owner_name ?meta) (teamOf someData) = Inr someTeam"
    by (simp add: membersOwner_def someOwner_def)
  have rm: "removeMembers ?meta ''core'' users w =
              (None, w @ map (Call_RemoveTeamMembershipBySlug ''acme'' ''core'') users)" for w
    using removeMembers_all_removed [of ?meta "''core''" users w]
    by (simp add: membersOwner_def someOwner_def)
  have m: "createRemoveMaintainer ?meta someData someTeam
             [Call_CreateTeam (owner_name ?meta) (teamOf someData)] = (None, ?w4)"
  proof -
    have "createRemoveMaintainer ?meta someData someTeam W =
            removeDefaultMaintainer ?meta ''core'' W" for W
      by (simp add: createRemoveMaintainer_def someData_def someTeam_def)
    moreover have "removeDefaultMaintainer ?meta ''core'' W =
            removeMembers ?meta ''core'' users (W @ [Call_Query ''core'' ''acme''])" for W
      by (simp add: removeDefaultMaintainer_def Query_def membersOwner_def someOwner_def)
    moreover have "owner_name ?meta = ''acme''"
      by (simp add: membersOwner_def someOwner_def)
    ultimately show ?thesis by (simp add: rm)
  qed
  have l: "createLdapMapping ?meta someData someTeam ?w4 = (None, ?w4)"
    by (simp add: createLdapMapping_def someData_def)
  have rd: "resourceGithubTeamRead ?meta (someData\<lparr>resource_id := FormatInt (t_ID someTeam)\<rparr>) ?w4 =
          (None, setTeamFields someTeam ''W/abc'' (someData\<lparr>resource_id := ''42''\<rparr>),
           ?w4 @ [Call_GetTeamByID \<lparr>ctxId = Some ''42'', ctxEtag = Some ''W/old''\<rparr> 1 42])"
    using read_team [of ?meta "someData\<lparr>resource_id := ''42''\<rparr>" 42 0 ?w4 someTeam "''W/abc''"]
    by (simp add: someTeam_def FormatInt_42 ParseInt_42 membersOwner_def someOwner_def
          readAnswer_def readCall_def readContext_def someData_def retries_0)
  have "resourceGithubTeamCreate ?meta someData [] =
          (None, setTeamFields someTeam ''W/abc'' (someData\<lparr>resource_id := ''42''\<rparr>),
           ?w4 @ [Call_GetTeamByID \<lparr>ctxId = Some ''42'', ctxEtag = Some ''W/old''\<rparr> 1 42])"
    by (simp add: create_unfold [OF org nt ct] m l rd)
  then show ?thesis
    by (simp add: remote_calls_def remote_calls_map_remove [unfolded remote_calls_def])
qed

text \<open>
  Claim C9, as amended. The retry count is 10 and the wait is 5 seconds. Every retry loop
  of read, update and create makes at most 10 retries after its first attempt, each after
  one sleep of exactly 5 seconds (no growing and no random delay). So, in every run, read
  adds at most 11 remote calls and 10 sleeps to the log, update at most 24 remote calls
  and 20 sleeps, and create at most 25 remote calls plus one for each member the query
  for the default maintainers reports (at most \<open>m\<close> of them), and 20 sleeps. All three
  operations terminate: each is a total function, its loops defined by recursion on a
  measure that decreases (the retries left, the members left).
\<close>

theorem retry_loops_bounded:
  "github_team_api_retry = 10 \<and> github_team_api_wait = 5
   \<and> remote_calls (snd (snd (resourceGithubTeamRead meta d w))) \<le> remote_calls w + 11
   \<and> calls_of is_Sleep (snd (snd (resourceGithubTeamRead meta d w))) \<le> calls_of is_Sleep w + 10
   \<and> list_all fixedSleep (drop (length w) (snd (snd (resourceGithubTeamRead meta d w))))
   \<and> remote_calls (snd (snd (resourceGithubTeamUpdate meta d w))) \<le> remote_calls w + 24
   \<and> calls_of is_Sleep (snd (snd (resourceGithubTeamUpdate meta d w))) \<le> calls_of is_Sleep w + 20
   \<and> list_all fixedSleep (drop (length w) (snd (snd (resourceGithubTeamUpdate meta d w))))
   \<and> ((\<forall>teamSlug. length (queryNodes meta teamSlug) \<le> m) \<longrightarrow>
        remote_calls (snd (snd (resourceGithubTeamCreate meta d w))) \<le> remote_calls w + 25 + m
        \<and> calls_of is_Sleep (snd (snd (resourceGithubTeamCreate meta d w))) \<le>
            calls_of is_Sleep w + 20
        \<and> list_all fixedSleep (drop (length w) (snd (snd (resourceGithubTeamCreate meta d w)))))"
proof (intro conjI impI)
  show "github_team_api_retry = 10" by (simp add: github_team_api_retry_def)
  show "github_team_api_wait = 5" by (simp add: github_team_api_wait_def)
  note r = read_bounded [of w meta d]
  show "remote_calls (snd (snd (resourceGithubTeamRead meta d w))) \<le> remote_calls w + 11"
    using grows_remote_calls [OF r] by (simp add: github_team_api_retry_def)
  show "calls_of is_Sleep (snd (snd (resourceGithubTeamRead meta d w))) \<le> calls_of is_Sleep w + 10"
    using grows_sleeps [OF r] by (simp add: github_team_api_retry_def)
  show "list_all fixedSleep (drop (length w) (snd (snd (resourceGithubTeamRead meta d w))))"
    by (rule grows_new [OF r])
  note u = update_bounded [of w meta d]
  show "remote_calls (snd (snd (resourceGithubTeamUpdate meta d w))) \<le> remote_calls w + 24"
    using grows_remote_calls [OF u] by (simp add: github_team_api_retry_def)
  show "calls_of is_Sleep (snd (snd (resourceGithubTeamUpdate meta d w))) \<le> calls_of is_Sleep w + 20"
    using grows_sleeps [OF u] by (simp add: github_team_api_retry_def)
  show "list_all fixedSleep (drop (length w) (snd (snd (resourceGithubTeamUpdate meta d w))))"
    by (rule grows_new [OF u])
next
  assume "\<forall>teamSlug. length (queryNodes meta teamSlug) \<le> m"
  then have c: "grows w (snd (snd (resourceGithubTeamCreate meta d w))) fixedSleep
           (2 * Suc github_team_api_retry + 3 + m) (2 * github_team_api_retry)"
    by (intro create_bounded) simp
  show "remote_calls (snd (snd (resourceGithubTeamCreate meta d w))) \<le> remote_calls w + 25 + m"
    using grows_remote_calls [OF c] by (simp add: github_team_api_retry_def)
  show "calls_of is_Sleep (snd (snd (resourceGithubTeamCreate meta d w))) \<le>
            calls_of is_Sleep w + 20"
    using grows_sleeps [OF c] by (simp add: github_team_api_retry_def)
  show "list_all fixedSleep (drop (length w) (snd (snd (resourceGithubTeamCreate meta d w))))"
    by (rule grows_new [OF c])
qed

theorem retry_loops_bounded_witness:
  "remote_calls (snd (snd (resourceGithubTeamRead
       (membersOwner [''creator'', ''owner'']) someData []))) \<le> 11
   \<and> remote_calls (snd (snd (resourceGithubTeamUpdate
       (membersOwner [''creator'', ''owner'']) someData []))) \<le> 24
   \<and> remote_calls (snd (snd (resourceGithubTeamCreate
       (membersOwner [''creator'', ''owner'']) someData []))) \<le> 27
   \<and> calls_of is_Sleep (snd (snd (resourceGithubTeamCreate
       (membersOwner [''creator'', ''owner'']) someData []))) \<le> 20"
  using retry_loops_bounded [of "membersOwner [''creator'', ''owner'']" someData "[]" 2]
  by (simp add: queryNodes_def membersOwner_def remote_calls_def calls_of_def)

text \<open>
  Claim C9 as stated fails. The calls of create are not bounded by a fixed number: with
  30 members reported by the query create makes 33 remote calls, with 60 members 63.
  And the retry count does not count the first attempt: a read whose fetch always
  answers not-found fetches 11 times.
\<close>

theorem calls_exceed_any_fixed_count:
  "calls_of is_GetTeamByID
     (snd (snd (resourceGithubTeamRead (fetchScriptOwner (\<lambda>k. Inl (ErrorResponse 404)))
        someData []))) = 11
   \<and> remote_calls (snd (snd (resourceGithubTeamCreate
        (membersOwner (replicate 30 ''member'')) someData []))) = 33
   \<and> remote_calls (snd (snd (resourceGithubTeamCreate
        (membersOwner (replicate 60 ''member'')) someData []))) = 63"
proof -
  let ?meta = "fetchScriptOwner (\<lambda>k. Inl (ErrorResponse 404))"
  have retr: "\<forall>j<github_team_api_retry. readRetries (readAnswer ?meta someData [] 42 j)"
    by (simp add: readAnswer_def fetchScriptOwner_def readRetries_simps StatusNotModified_def)
  have org: "checkOrganization ?meta = None"
    by (simp add: fetchScriptOwner_def someOwner_def)
  have idp: "ParseInt (resource_id someData) = Inr 42"
    by (simp add: someData_def ParseInt_42)
  from read_exhausted [OF org idp retr]
  have "snd (snd (resourceGithubTeamRead ?meta someData [])) =
          readCall ?meta someData 42 # retries github_team_api_retry (readCall ?meta someData 42)"
    by (simp add: fetchScriptOwner_def someOwner_def readAfterLoop_def readAnswer_def
          StatusNotFound_def StatusNotModified_def someData_def)
  then have "calls_of is_GetTeamByID (snd (snd (resourceGithubTeamRead ?meta someData []))) = 11"
    by (simp add: calls_of_Cons calls_of_retries readCall_def github_team_api_retry_def)
  then show ?thesis by (simp add: create_calls_one_per_member)
qed

end
